theory Spec2Isabelle
  imports Complex_Main "HOL-Library.Word" "HOL-Library.Log_Nat"
begin

section \<open>JavaScript strings\<close>

text \<open>
  A JavaScript string is a sequence of UTF-16 code units. The text the user types, the
  codes and names of the geographic service and the stored records are \<open>jsstring\<close>s.
  The fixed messages of the notifications are never inspected by the code and are kept as
  HOL strings.
\<close>

type_synonym code_unit = "16 word"
type_synonym jsstring = "code_unit list"

definition js :: "string \<Rightarrow> jsstring" where
  "js s = map of_char s"

text \<open>
  \<open>String.prototype.trim\<close> removes leading and trailing WhiteSpace and LineTerminator
  code points (ECMAScript 2023, 22.1.3.32): TAB, LF, VT, FF, CR, SP, NBSP, the Unicode
  space separators, LS, PS and the byte order mark. All of them are single code units.
\<close>

definition isWhiteSpace :: "code_unit \<Rightarrow> bool" where
  "isWhiteSpace c \<longleftrightarrow>
     c \<in> set [0x0009, 0x000A, 0x000B, 0x000C, 0x000D, 0x0020, 0x00A0, 0x1680,
              0x2000, 0x2001, 0x2002, 0x2003, 0x2004, 0x2005, 0x2006, 0x2007,
              0x2008, 0x2009, 0x200A, 0x2028, 0x2029, 0x202F, 0x205F, 0x3000, 0xFEFF]"

definition trim :: "jsstring \<Rightarrow> jsstring" where
  "trim s = rev (dropWhile isWhiteSpace (rev (dropWhile isWhiteSpace s)))"

text \<open>
  \<open>s.split(sep)\<close> for a separator of one code unit: the string is cut at every
  occurrence of the separator; \<open>cur\<close> holds the current token, reversed.
\<close>

fun split_from :: "code_unit \<Rightarrow> jsstring \<Rightarrow> jsstring \<Rightarrow> jsstring list" where
  "split_from sep cur [] = [rev cur]"
| "split_from sep cur (c # cs) =
     (if c = sep then rev cur # split_from sep [] cs else split_from sep (c # cur) cs)"

definition comma :: code_unit where
  "comma = 0x002C"

definition split_comma :: "jsstring \<Rightarrow> jsstring list" where
  "split_comma s = split_from comma [] s"

text \<open>\<open>xs.join(sep)\<close>.\<close>

fun join :: "jsstring \<Rightarrow> jsstring list \<Rightarrow> jsstring" where
  "join sep [] = []"
| "join sep [x] = x"
| "join sep (x # y # ys) = x @ sep @ join sep (y # ys)"

text \<open>\<open>x || d\<close> on strings: the empty string is the only falsy string.\<close>

definition or_else :: "jsstring \<Rightarrow> jsstring \<Rightarrow> jsstring" where
  "or_else x d = (if x = [] then d else x)"

text \<open>
  \<open>xs.sort(cmp)\<close>: the sort is stable, and for a consistent comparator its result is
  the stable sorted arrangement, which insertion from the right computes.
\<close>

fun insort_by :: "('a \<Rightarrow> 'a \<Rightarrow> int) \<Rightarrow> 'a \<Rightarrow> 'a list \<Rightarrow> 'a list" where
  "insort_by cmp x [] = [x]"
| "insort_by cmp x (y # ys) =
     (if cmp x y \<le> 0 then x # y # ys else y # insort_by cmp x ys)"

definition sort_by :: "('a \<Rightarrow> 'a \<Rightarrow> int) \<Rightarrow> 'a list \<Rightarrow> 'a list" where
  "sort_by cmp xs = foldr (insort_by cmp) xs []"

section \<open>The accommodation manager (ManageAccommodations.tsx)\<close>

subsection \<open>Data\<close>

text \<open>
  The form, the record sent to the store and the stored record have the same fields;
  \<open>category\<close> and \<open>amenities\<close> are one string in the form and an array of strings in the
  other two; \<open>acc_id\<close> is the \<open>id\<close> of the stored record. The number of the
  \<open>rating\<close> field is only copied; numbers are modelled as rationals, as explained with
  the review list.
\<close>

type_synonym number = rat

record 'tags listing =
  name :: jsstring
  description :: jsstring
  location :: jsstring
  municipality :: jsstring
  category :: 'tags
  image_url :: jsstring
  contact_number :: jsstring
  email :: jsstring
  price_range :: jsstring
  amenities :: 'tags
  rating :: number

record Accommodation = "jsstring list listing" +
  acc_id :: jsstring

record Municipality =
  code :: jsstring
  name :: jsstring

type_synonym Barangay = Municipality

record state =
  accommodations :: "Accommodation list"
  isOpen :: bool
  editingId :: "jsstring option"
  municipalities :: "Municipality list"
  barangays :: "Barangay list"
  formData :: "jsstring listing"

definition emptyForm :: "jsstring listing" where
  "emptyForm = \<lparr>listing.name = [], description = [], location = [], municipality = [],
     category = [], image_url = [], contact_number = [], email = [], price_range = [],
     amenities = [], rating = 0\<rparr>"

definition initial :: state where
  "initial = \<lparr>accommodations = [], isOpen = False, editingId = None, municipalities = [],
     barangays = [], formData = emptyForm\<rparr>"

subsection \<open>The outside world\<close>

text \<open>
  A \<open>fetch\<close> either rejects or resolves to a response with its \<open>ok\<close> flag. The body is
  modelled after \<open>response.json()\<close> and the decoding \<open>(data || []).map(...)\<close>:
  \<open>Unparsable\<close> when \<open>json()\<close> rejects or the value has a shape on which the decoding
  raises, \<open>Falsy\<close> for \<open>null\<close> and the other falsy values, \<open>Records\<close> for an array of
  objects with a \<open>code\<close> and a \<open>name\<close>. \<open>localeCompare\<close> is the collation of the
  runtime.
\<close>

datatype body = Unparsable | Falsy | Records "Municipality list"

record response =
  ok :: bool
  json :: body

datatype fetch_result = Rejected | Resolved response

record world =
  fetch :: "jsstring \<Rightarrow> fetch_result"
  localeCompare :: "jsstring \<Rightarrow> jsstring \<Rightarrow> int"

text \<open>The result of a query on the store: \<open>{ data, error }\<close>.\<close>

record select_result =
  data :: "Accommodation list option"
  error :: bool

datatype effect =
    Fetch jsstring
  | ConsoleError
  | ToastError string
  | ToastSuccess string
  | SelectAccommodations
  | UpdateAccommodation "jsstring list listing" jsstring
  | InsertAccommodation "jsstring list listing"
  | DeleteAccommodation jsstring
  | Confirm string

fun is_toast :: "effect \<Rightarrow> bool" where
  "is_toast (ToastError m) = True"
| "is_toast (ToastSuccess m) = True"
| "is_toast e = False"

fun fetched :: "effect list \<Rightarrow> jsstring list" where
  "fetched [] = []"
| "fetched (Fetch u # es) = u # fetched es"
| "fetched (e # es) = fetched es"

text \<open>The calls in flight: an asynchronous function suspended at its \<open>await\<close>.\<close>

datatype call =
    FetchAccommodations
  | FetchMunicipalities
  | FetchBarangays jsstring
  | Update
  | Insert
  | Delete

subsection \<open>The asynchronous functions\<close>

text \<open>
  None of the fetching functions reads or writes the component's state between its call
  and its last \<open>await\<close>, so each is one function from the answers of the world and the
  state at the time it resolves to the new state and the effects in their order.
\<close>

definition fetchAccommodations :: "select_result \<Rightarrow> state \<Rightarrow> state \<times> effect list" where
  "fetchAccommodations r s =
     (case data r of
        Some d \<Rightarrow> if \<not> error r then (s\<lparr>accommodations := d\<rparr>, [SelectAccommodations])
                  else (s, [SelectAccommodations])
      | None \<Rightarrow> (s, [SelectAccommodations]))"

definition municipalities_url :: jsstring where
  "municipalities_url = js ''https://psgc.gitlab.io/api/provinces/050500000/municipalities/''"

definition cities_url :: jsstring where
  "cities_url = js ''https://psgc.gitlab.io/api/provinces/050500000/cities/''"

definition municipality_barangays_url :: "jsstring \<Rightarrow> jsstring" where
  "municipality_barangays_url c = js ''https://psgc.gitlab.io/api/municipalities/'' @ c @ js ''/barangays/''"

definition city_barangays_url :: "jsstring \<Rightarrow> jsstring" where
  "city_barangays_url c = js ''https://psgc.gitlab.io/api/cities/'' @ c @ js ''/barangays/''"

text \<open>\<open>(data || []).map(...)\<close>, or the exception.\<close>

fun decode :: "body \<Rightarrow> Municipality list option" where
  "decode Unparsable = None"
| "decode Falsy = Some []"
| "decode (Records rs) = Some rs"

definition by_name :: "world \<Rightarrow> Municipality \<Rightarrow> Municipality \<Rightarrow> int" where
  "by_name w a b = localeCompare w (name a) (name b)"

definition failed :: "string \<Rightarrow> effect list" where
  "failed msg = [ConsoleError, ToastError msg]"

definition fetchMunicipalities :: "world \<Rightarrow> state \<Rightarrow> state \<times> effect list" where
  "fetchMunicipalities w s =
     (let requests = [Fetch municipalities_url, Fetch cities_url];
          caught = (s, requests @ failed ''Failed to load municipalities and cities'')
      in case (fetch w municipalities_url, fetch w cities_url) of
           (Resolved muniRes, Resolved cityRes) \<Rightarrow>
             (case (decode (json muniRes), decode (json cityRes)) of
                (Some muniData, Some cityData) \<Rightarrow>
                  (s\<lparr>municipalities := sort_by (by_name w) (muniData @ cityData)\<rparr>, requests)
              | _ \<Rightarrow> caught)
         | _ \<Rightarrow> caught)"

definition loaded :: "world \<Rightarrow> response \<Rightarrow> effect list \<Rightarrow> state \<Rightarrow> state \<times> effect list" where
  "loaded w res requests s =
     (case decode (json res) of
        Some rows \<Rightarrow> (s\<lparr>barangays := sort_by (by_name w) rows\<rparr>, requests)
      | None \<Rightarrow> (s, requests @ failed ''Failed to load barangays''))"

definition fetchBarangays :: "world \<Rightarrow> jsstring \<Rightarrow> state \<Rightarrow> state \<times> effect list" where
  "fetchBarangays w c s =
     (case fetch w (municipality_barangays_url c) of
        Rejected \<Rightarrow> (s, Fetch (municipality_barangays_url c) # failed ''Failed to load barangays'')
      | Resolved res \<Rightarrow>
          if \<not> ok res then
            (case fetch w (city_barangays_url c) of
               Rejected \<Rightarrow>
                 (s, [Fetch (municipality_barangays_url c), Fetch (city_barangays_url c)]
                     @ failed ''Failed to load barangays'')
             | Resolved res2 \<Rightarrow>
                 loaded w res2 [Fetch (municipality_barangays_url c), Fetch (city_barangays_url c)] s)
          else loaded w res [Fetch (municipality_barangays_url c)] s)"

text \<open>The conditions under which the \<open>catch\<close> block of a fetching function is entered.\<close>

definition fetchBarangays_throws :: "world \<Rightarrow> jsstring \<Rightarrow> bool" where
  "fetchBarangays_throws w c =
     (case fetch w (municipality_barangays_url c) of
        Rejected \<Rightarrow> True
      | Resolved res \<Rightarrow>
          if \<not> ok res then
            (case fetch w (city_barangays_url c) of
               Rejected \<Rightarrow> True
             | Resolved res2 \<Rightarrow> decode (json res2) = None)
          else decode (json res) = None)"

definition fetchMunicipalities_throws :: "world \<Rightarrow> bool" where
  "fetchMunicipalities_throws w =
     (case (fetch w municipalities_url, fetch w cities_url) of
        (Resolved muniRes, Resolved cityRes) \<Rightarrow>
          decode (json muniRes) = None \<or> decode (json cityRes) = None
      | _ \<Rightarrow> True)"

subsection \<open>The handlers\<close>

text \<open>
  A handler runs to its end, or to its first \<open>await\<close>: it returns the new state, the
  effects and the calls it leaves in flight.
\<close>

type_synonym outcome_of_handler = "state \<times> effect list \<times> call list"

definition handleMunicipalityChange :: "jsstring \<Rightarrow> state \<Rightarrow> outcome_of_handler" where
  "handleMunicipalityChange c s =
     (let selected = find (\<lambda>m. code m = c) (municipalities s);
          s1 = s\<lparr>formData := (formData s)
                 \<lparr>municipality := (case selected of None \<Rightarrow> [] | Some m \<Rightarrow> or_else (name m) []),
                  location := []\<rparr>\<rparr>;
          s2 = s1\<lparr>barangays := []\<rparr>
      in (s2, [], if c \<noteq> [] then [FetchBarangays c] else []))"

definition handleLocationChange :: "jsstring \<Rightarrow> state \<Rightarrow> outcome_of_handler" where
  "handleLocationChange c s =
     (let barangay = find (\<lambda>b. code b = c) (barangays s)
      in (s\<lparr>formData := (formData s)
             \<lparr>location := (case barangay of None \<Rightarrow> [] | Some b \<Rightarrow> or_else (name b) [])\<rparr>\<rparr>,
          [], []))"

definition resetForm :: "state \<Rightarrow> state" where
  "resetForm s = s\<lparr>formData := emptyForm, barangays := [], editingId := None\<rparr>"

definition accommodationData :: "jsstring listing \<Rightarrow> jsstring list listing" where
  "accommodationData f =
     \<lparr>listing.name = listing.name f, description = description f, location = location f,
      municipality = municipality f, category = map trim (split_comma (category f)),
      image_url = image_url f, contact_number = contact_number f, email = email f,
      price_range = price_range f, amenities = map trim (split_comma (amenities f)),
      rating = rating f\<rparr>"

text \<open>\<open>handleSubmit\<close> up to its \<open>await\<close>; \<open>if (editingId)\<close> is false for \<open>null\<close> and for the empty string.\<close>

definition handleSubmit :: "state \<Rightarrow> outcome_of_handler" where
  "handleSubmit s =
     (case editingId s of
        Some i \<Rightarrow>
          if i \<noteq> [] then (s, [UpdateAccommodation (accommodationData (formData s)) i], [Update])
          else (s, [InsertAccommodation (accommodationData (formData s))], [Insert])
      | None \<Rightarrow> (s, [InsertAccommodation (accommodationData (formData s))], [Insert]))"

text \<open>\<open>handleSubmit\<close> after the \<open>await\<close>, given whether the store answered with an error.\<close>

definition saved :: "string \<Rightarrow> string \<Rightarrow> bool \<Rightarrow> state \<Rightarrow> outcome_of_handler" where
  "saved failure success err s =
     (if err then (s, [ToastError failure], [])
      else (resetForm (s\<lparr>isOpen := False\<rparr>), [ToastSuccess success], [FetchAccommodations]))"

definition handleSubmit_updated :: "bool \<Rightarrow> state \<Rightarrow> outcome_of_handler" where
  "handleSubmit_updated = saved ''Failed to update accommodation'' ''Accommodation updated successfully''"

definition handleSubmit_inserted :: "bool \<Rightarrow> state \<Rightarrow> outcome_of_handler" where
  "handleSubmit_inserted = saved ''Failed to add accommodation'' ''Accommodation added successfully''"

definition handleEdit :: "Accommodation \<Rightarrow> state \<Rightarrow> outcome_of_handler" where
  "handleEdit a s =
     (let s1 = s\<lparr>formData :=
                 \<lparr>listing.name = listing.name a,
                  description = or_else (description a) [],
                  location = location a,
                  municipality = or_else (municipality a) [],
                  category = or_else (join (js '', '') (category a)) [],
                  image_url = or_else (image_url a) [],
                  contact_number = or_else (contact_number a) [],
                  email = or_else (email a) [],
                  price_range = or_else (price_range a) [],
                  amenities = or_else (join (js '', '') (amenities a)) [],
                  rating = (if rating a = 0 then 0 else rating a)\<rparr>\<rparr>;
          s2 = s1\<lparr>editingId := Some (acc_id a)\<rparr>;
          s3 = s2\<lparr>isOpen := True\<rparr>
      in (s3, [],
          if municipality a \<noteq> [] then
            (case find (\<lambda>m. name m = municipality a) (municipalities s) of
               Some muni \<Rightarrow> [FetchBarangays (code muni)]
             | None \<Rightarrow> [])
          else []))"

definition handleDelete :: "jsstring \<Rightarrow> bool \<Rightarrow> state \<Rightarrow> outcome_of_handler" where
  "handleDelete i confirmed s =
     (if \<not> confirmed then (s, [Confirm ''Are you sure you want to delete this accommodation?''], [])
      else (s, [Confirm ''Are you sure you want to delete this accommodation?'',
                DeleteAccommodation i], [Delete]))"

definition handleDelete_deleted :: "bool \<Rightarrow> state \<Rightarrow> outcome_of_handler" where
  "handleDelete_deleted err s =
     (if err then (s, [ToastError ''Failed to delete accommodation''], [])
      else (s, [ToastSuccess ''Accommodation deleted successfully''], [FetchAccommodations]))"

datatype field = Name | Description | Category | ImageUrl | ContactNumber | Email | PriceRange | Amenities

fun typed :: "field \<Rightarrow> jsstring \<Rightarrow> jsstring listing \<Rightarrow> jsstring listing" where
  "typed Name v f = f\<lparr>listing.name := v\<rparr>"
| "typed Description v f = f\<lparr>description := v\<rparr>"
| "typed Category v f = f\<lparr>category := v\<rparr>"
| "typed ImageUrl v f = f\<lparr>image_url := v\<rparr>"
| "typed ContactNumber v f = f\<lparr>contact_number := v\<rparr>"
| "typed Email v f = f\<lparr>email := v\<rparr>"
| "typed PriceRange v f = f\<lparr>price_range := v\<rparr>"
| "typed Amenities v f = f\<lparr>amenities := v\<rparr>"

subsection \<open>The component as a transition system\<close>

text \<open>
  The events of the component: the user's actions and the settling of a call in flight
  with the answer of the store or of the geographic service. Calls settle in any order.
\<close>

datatype answer = Selected select_result | Answered world | Stored bool

datatype event =
    Mount
  | Typed field jsstring
  | RatingTyped number
  | MunicipalitySelected jsstring
  | LocationSelected jsstring
  | SubmitForm
  | EditClicked Accommodation
  | DeleteClicked jsstring bool
  | AddClicked
  | CancelClicked
  | OpenChange bool
  | Settled nat answer

record config =
  component :: state
  inflight :: "call list"
  trace :: "effect list"

definition start :: config where
  "start = \<lparr>component = initial, inflight = [], trace = []\<rparr>"

definition after :: "outcome_of_handler \<Rightarrow> config \<Rightarrow> config" where
  "after r c = (case r of (s, es, ts) \<Rightarrow>
     \<lparr>component = s, inflight = inflight c @ ts, trace = trace c @ es\<rparr>)"

definition no_calls :: "state \<times> effect list \<Rightarrow> outcome_of_handler" where
  "no_calls r = (fst r, snd r, [])"

fun settle :: "call \<Rightarrow> answer \<Rightarrow> state \<Rightarrow> outcome_of_handler option" where
  "settle FetchAccommodations (Selected r) s = Some (no_calls (fetchAccommodations r s))"
| "settle FetchMunicipalities (Answered w) s = Some (no_calls (fetchMunicipalities w s))"
| "settle (FetchBarangays c) (Answered w) s = Some (no_calls (fetchBarangays w c s))"
| "settle Update (Stored err) s = Some (handleSubmit_updated err s)"
| "settle Insert (Stored err) s = Some (handleSubmit_inserted err s)"
| "settle Delete (Stored err) s = Some (handleDelete_deleted err s)"
| "settle t a s = None"

fun step :: "event \<Rightarrow> config \<Rightarrow> config" where
  "step Mount c = after (component c, [], [FetchAccommodations, FetchMunicipalities]) c"
| "step (Typed fld v) c =
     after ((component c)\<lparr>formData := typed fld v (formData (component c))\<rparr>, [], []) c"
| "step (RatingTyped r) c =
     after ((component c)\<lparr>formData := (formData (component c))\<lparr>rating := r\<rparr>\<rparr>, [], []) c"
| "step (MunicipalitySelected v) c = after (handleMunicipalityChange v (component c)) c"
| "step (LocationSelected v) c = after (handleLocationChange v (component c)) c"
| "step SubmitForm c = after (handleSubmit (component c)) c"
| "step (EditClicked a) c = after (handleEdit a (component c)) c"
| "step (DeleteClicked i confirmed) c = after (handleDelete i confirmed (component c)) c"
| "step AddClicked c = after ((resetForm (component c))\<lparr>isOpen := True\<rparr>, [], []) c"
| "step CancelClicked c = after (resetForm ((component c)\<lparr>isOpen := False\<rparr>), [], []) c"
| "step (OpenChange b) c = after ((component c)\<lparr>isOpen := b\<rparr>, [], []) c"
| "step (Settled i a) c =
     (if i < length (inflight c) then
        (case settle (inflight c ! i) a (component c) of
           Some r \<Rightarrow> after r (c\<lparr>inflight := take i (inflight c) @ drop (Suc i) (inflight c)\<rparr>)
         | None \<Rightarrow> c)
      else c)"

definition run :: "event list \<Rightarrow> config \<Rightarrow> config" where
  "run es c = foldl (\<lambda>c e. step e c) c es"

section \<open>The review form (ReviewForm.tsx)\<close>

text \<open>
  The draft of the form and its props. The callback \<open>onReviewSubmitted\<close> of the props is
  an effect. The rating is one of the five stars, or 0 while unset.
\<close>

record draft =
  rating :: nat
  hoveredRating :: nat
  comment :: jsstring
  isSubmitting :: bool

record ReviewFormProps =
  spotId :: jsstring
  userId :: jsstring
  hasUserReviewed :: bool

text \<open>
  \<open>Toast title description destructive\<close> is the call of \<open>toast\<close>;
  \<open>InsertReview spot_id user_id rating comment\<close> is the insert into the store.
\<close>

datatype review_effect =
    Toast string string bool
  | InsertReview jsstring jsstring nat "jsstring option"
  | DeleteReview jsstring
  | OnReviewSubmitted
  | FetchReviews

fun is_remote :: "review_effect \<Rightarrow> bool" where
  "is_remote (InsertReview s u r c) = True"
| "is_remote (DeleteReview i) = True"
| "is_remote e = False"

fun is_notification :: "review_effect \<Rightarrow> bool" where
  "is_notification (Toast t d v) = True"
| "is_notification e = False"

text \<open>
  \<open>handleSubmit\<close> of the review form up to its \<open>await\<close>: the new draft, the effects, and
  whether an insert is left in flight.
\<close>

definition ReviewForm_handleSubmit ::
  "ReviewFormProps \<Rightarrow> draft \<Rightarrow> draft \<times> review_effect list \<times> bool" where
  "ReviewForm_handleSubmit p d =
     (if draft.rating d = 0 then
        (d, [Toast ''Error'' ''Please select a rating'' True], False)
      else
        (d\<lparr>isSubmitting := True\<rparr>,
         [InsertReview (spotId p) (userId p) (draft.rating d)
            (if trim (draft.comment d) = [] then None else Some (trim (draft.comment d)))],
         True))"

text \<open>After the \<open>await\<close>, given whether the store answered with an error.\<close>

definition ReviewForm_handleSubmit_inserted :: "bool \<Rightarrow> draft \<Rightarrow> draft \<times> review_effect list" where
  "ReviewForm_handleSubmit_inserted err d =
     (if err then
        (d\<lparr>isSubmitting := False\<rparr>, [Toast ''Error'' ''Failed to submit review'' True])
      else
        (d\<lparr>draft.rating := 0, draft.comment := [], isSubmitting := False\<rparr>,
         [Toast ''Success'' ''Review submitted successfully'' False, OnReviewSubmitted]))"

text \<open>The \<open>disabled\<close> attribute of the submit button.\<close>

definition submit_disabled :: "ReviewFormProps \<Rightarrow> draft \<Rightarrow> bool" where
  "submit_disabled p d \<longleftrightarrow> isSubmitting d \<or> draft.rating d = 0 \<or> hasUserReviewed p"

section \<open>The review list (ReviewList.tsx)\<close>

text \<open>\<open>handleDeleteReview\<close> up to its \<open>await\<close>, and after it.\<close>

definition handleDeleteReview :: "jsstring \<Rightarrow> review_effect list" where
  "handleDeleteReview reviewId = [DeleteReview reviewId]"

definition handleDeleteReview_deleted :: "bool \<Rightarrow> review_effect list" where
  "handleDeleteReview_deleted err =
     (if err then [Toast ''Error'' ''Failed to delete review'' True]
      else [Toast ''Success'' ''Review deleted successfully'' False, FetchReviews])"

subsection \<open>Numbers\<close>

text \<open>
  A JavaScript number is an IEEE 754 binary64 value. The finite ones are rationals, and
  the model works on rationals: \<open>fl\<close> rounds a rational to the nearest binary64 value,
  ties to the even significand, with 53 bits of significand above the subnormal range and
  the fixed exponent \<open>-1074\<close> in it. Sums and quotients are the rounded exact results.
  Infinities and NaN are outside the model: no result here reaches \<open>2 ^ 1024\<close>, and the
  only division is by a length that is not 0.
\<close>

text \<open>\<open>ilog2 x\<close> is the integer \<open>k\<close> with \<open>2 ^ k \<le> x < 2 ^ (k + 1)\<close>, for a positive \<open>x\<close>.\<close>

definition ilog2 :: "rat \<Rightarrow> int" where
  "ilog2 x = (case quotient_of x of (a, b) \<Rightarrow>
     (let k = bitlen a - bitlen b in if 2 powi k \<le> x then k else k - 1))"

definition round_even :: "rat \<Rightarrow> int" where
  "round_even y = (let f = \<lfloor>y\<rfloor>; r = y - of_int f in
     if r < 1 / 2 then f else if 1 / 2 < r then f + 1 else if even f then f else f + 1)"

definition fl :: "rat \<Rightarrow> number" where
  "fl x = (if x = 0 then 0 else
     (let e = max (ilog2 \<bar>x\<bar> - 52) (- 1074); u = 2 powi e
      in of_int (round_even (x / u)) * u))"

definition js_add :: "number \<Rightarrow> number \<Rightarrow> number" where
  "js_add x y = fl (x + y)"

definition js_div :: "number \<Rightarrow> number \<Rightarrow> number" where
  "js_div x y = fl (x / y)"

text \<open>The decimal digits of a natural number.\<close>

fun digits :: "nat \<Rightarrow> string" where
  "digits n = (if n < 10 then [char_of (48 + n)]
               else digits (n div 10) @ [char_of (48 + n mod 10)])"

text \<open>
  \<open>x.toFixed(f)\<close> (ECMAScript 2023, 21.1.3.3): \<open>n\<close> is the integer nearest to
  \<open>x * 10 ^ f\<close>, the larger one of two; its digits are padded with zeros to \<open>f + 1\<close>
  digits and the point is put before the last \<open>f\<close>. From \<open>10 ^ 21\<close> on the result is
  in exponent notation, which is not modelled: \<open>None\<close>.
\<close>

definition toFixed :: "nat \<Rightarrow> number \<Rightarrow> string option" where
  "toFixed f x =
     (if 10 ^ 21 \<le> \<bar>x\<bar> then None
      else
        (let s = (if x < 0 then ''-'' else []);
             n = nat \<lfloor>\<bar>x\<bar> * 10 ^ f + 1 / 2\<rfloor>;
             m = digits n;
             m = (if f \<noteq> 0 \<and> length m \<le> f then replicate (f + 1 - length m) (CHR ''0'') @ m else m)
         in Some (s @ (if f \<noteq> 0
                        then take (length m - f) m @ ''.'' @ drop (length m - f) m
                        else m))))"

subsection \<open>The list\<close>

text \<open>The rating of a stored review is a whole number of stars.\<close>

record Review =
  review_id :: jsstring
  rating :: nat
  comment :: "jsstring option"
  created_at :: jsstring
  user_id :: jsstring
  user_name :: jsstring

record ReviewListProps =
  currentUserId :: "jsstring option"
  reviews :: "Review list"
  isLoading :: bool

definition averageRating :: "Review list \<Rightarrow> number" where
  "averageRating rs =
     js_div (foldl (\<lambda>sum r. js_add sum (of_nat (Review.rating r))) 0 rs) (of_nat (length rs))"

text \<open>
  For comparison with \<open>averageRating\<close>, in the words of the specification: the
  arithmetic mean of the ratings, in exact arithmetic, and whether a number lies halfway
  between two neighbouring tenths, where rendering to one decimal place has to choose.
\<close>

definition arithmetic_mean :: "Review list \<Rightarrow> rat" where
  "arithmetic_mean rs = of_nat (sum_list (map Review.rating rs)) / of_nat (length rs)"

definition halfway :: "rat \<Rightarrow> bool" where
  "halfway x \<longleftrightarrow> of_int \<lfloor>x * 10 + 1 / 2\<rfloor> = x * 10 + 1 / 2"

text \<open>The text \<open>({reviews.length} {reviews.length === 1 ? "review" : "reviews"})\<close>.\<close>

definition countLabel :: "Review list \<Rightarrow> string" where
  "countLabel rs =
     ''('' @ digits (length rs) @ '' '' @ (if length rs = 1 then ''review'' else ''reviews'') @ '')''"

text \<open>
  What the component renders: the spinner, the empty message, or the displayed average,
  the count and one card per review, with its delete button or without.
\<close>

datatype view = Spinner | NoReviews | Reviews "string option" string "(Review \<times> bool) list"

definition ReviewList :: "ReviewListProps \<Rightarrow> view" where
  "ReviewList p =
     (if isLoading p then Spinner
      else if reviews p = [] then NoReviews
      else Reviews (toFixed 1 (averageRating (reviews p))) (countLabel (reviews p))
             (map (\<lambda>r. (r, currentUserId p = Some (user_id r))) (reviews p)))"

section \<open>Concrete inputs\<close>

text \<open>
  A municipality and a city of the province with two barangays each, a world that serves
  them (the city only under the city endpoint), a world without network, and a stored
  accommodation. The comparison stands in for the collation of the runtime.
\<close>

fun compare_units :: "jsstring \<Rightarrow> jsstring \<Rightarrow> int" where
  "compare_units [] [] = 0"
| "compare_units [] (y # ys) = - 1"
| "compare_units (x # xs) [] = 1"
| "compare_units (x # xs) (y # ys) =
     (if x < y then - 1 else if y < x then 1 else compare_units xs ys)"

definition daraga :: Municipality where
  "daraga = \<lparr>code = js ''050503000'', name = js ''Daraga''\<rparr>"

definition legazpi :: Municipality where
  "legazpi = \<lparr>code = js ''050506000'', name = js ''City of Legazpi''\<rparr>"

definition daraga_barangays :: "Barangay list" where
  "daraga_barangays = [\<lparr>code = js ''050503002'', name = js ''Anislag''\<rparr>,
                       \<lparr>code = js ''050503001'', name = js ''Alcala''\<rparr>]"

definition legazpi_barangays :: "Barangay list" where
  "legazpi_barangays = [\<lparr>code = js ''050506002'', name = js ''Bagumbayan''\<rparr>,
                        \<lparr>code = js ''050506001'', name = js ''Arimbay''\<rparr>]"

definition served :: "Municipality list \<Rightarrow> fetch_result" where
  "served rows = Resolved \<lparr>ok = True, json = Records rows\<rparr>"

definition not_found :: fetch_result where
  "not_found = Resolved \<lparr>ok = False, json = Unparsable\<rparr>"

definition albay_fetch :: "jsstring \<Rightarrow> fetch_result" where
  "albay_fetch u =
     (if u = municipalities_url then served [daraga]
      else if u = cities_url then served [legazpi]
      else if u = municipality_barangays_url (code daraga) then served daraga_barangays
      else if u = city_barangays_url (code legazpi) then served legazpi_barangays
      else not_found)"

definition albay :: world where
  "albay = \<lparr>fetch = albay_fetch, localeCompare = compare_units\<rparr>"

definition no_network :: "jsstring \<Rightarrow> fetch_result" where
  "no_network u = Rejected"

definition offline :: world where
  "offline = \<lparr>fetch = no_network, localeCompare = compare_units\<rparr>"

definition inn :: Accommodation where
  "inn = \<lparr>listing.name = js ''Mayon View Inn'', description = js ''Rooms facing the volcano'',
     location = js ''Alcala'', municipality = js ''Daraga'',
     category = [js ''Budget'', js ''Inn''], image_url = [], contact_number = [],
     email = [], price_range = [], amenities = [js ''WiFi''], listing.rating = 4, acc_id = js ''a1''\<rparr>"

definition stored :: select_result where
  "stored = \<lparr>data = Some [inn], error = False\<rparr>"

definition unreachable :: select_result where
  "unreachable = \<lparr>data = None, error = True\<rparr>"

definition stray_commas :: state where
  "stray_commas = initial\<lparr>formData := emptyForm
     \<lparr>category := js ''Luxury, Beach Resort,,Luxury ,'', amenities := js '' WiFi ,Pool''\<rparr>\<rparr>"

text \<open>The component after mounting, with the list and the municipalities loaded.\<close>

definition mounted :: config where
  "mounted = run [Mount, Settled 1 (Answered albay), Settled 0 (Selected stored)] start"

text \<open>
  The user selects Daraga and then Legazpi; the answer for Daraga arrives after the second
  selection, while the fetch for Legazpi is still in flight.
\<close>

definition selected_twice :: config where
  "selected_twice =
     run [MunicipalitySelected (code daraga), MunicipalitySelected (code legazpi)] mounted"

definition late_answer :: config where
  "late_answer = step (Settled 0 (Answered albay)) selected_twice"

text \<open>The user opens the stored accommodation for editing.\<close>

definition editing :: config where
  "editing = step (EditClicked inn) mounted"

text \<open>
  The barangays of the edited record arrive, the dialog is dismissed, the record is opened
  again and this time the network is down.
\<close>

definition reopened :: config where
  "reopened = run [Settled 0 (Answered albay), OpenChange False, EditClicked inn] editing"

definition edited_twice :: config where
  "edited_twice = step (Settled 0 (Answered offline)) reopened"

text \<open>Drafts of the review form.\<close>

definition visitor :: ReviewFormProps where
  "visitor = \<lparr>spotId = js ''spot-7'', userId = js ''user-3'', hasUserReviewed = False\<rparr>"

definition unrated :: draft where
  "unrated = \<lparr>draft.rating = 0, hoveredRating = 0, draft.comment = js ''Nice view'', isSubmitting = False\<rparr>"

definition four_stars :: draft where
  "four_stars = \<lparr>draft.rating = 4, hoveredRating = 0, draft.comment = js ''  Nice view '', isSubmitting = False\<rparr>"

definition stars_only :: draft where
  "stars_only = \<lparr>draft.rating = 5, hoveredRating = 0, draft.comment = js ''   '', isSubmitting = False\<rparr>"

text \<open>Reviews of one spot.\<close>

definition review :: "nat \<Rightarrow> Review" where
  "review stars = \<lparr>review_id = js ''r'', rating = stars, comment = None,
     created_at = js ''2025-01-01'', user_id = js ''user-3'', user_name = js ''Ana''\<rparr>"

definition listed :: "nat list \<Rightarrow> ReviewListProps" where
  "listed stars = \<lparr>currentUserId = None, reviews = map review stars, isLoading = False\<rparr>"

text \<open>Seven reviews of five stars and thirteen of four: the mean is 4.35.\<close>

definition divided :: ReviewListProps where
  "divided = listed (replicate 7 5 @ replicate 13 4)"

section \<open>Auxiliary facts\<close>

lemma split_from_nonempty: "split_from sep cur s \<noteq> []"
  by (induction s arbitrary: cur) auto

lemma join_Cons: "join sep (x # xs) = (if xs = [] then x else x @ sep @ join sep xs)"
  by (cases xs) auto

lemma join_split_from: "join [sep] (split_from sep cur s) = rev cur @ s"
  by (induction s arbitrary: cur) (auto simp: join_Cons split_from_nonempty)

lemma split_from_free: "t \<in> set (split_from sep cur s) \<Longrightarrow> sep \<notin> set cur \<Longrightarrow> sep \<notin> set t"
proof (induction s arbitrary: cur)
  case Nil
  then show ?case by simp
next
  case (Cons c s)
  show ?case
  proof (cases "c = sep")
    case True
    with Cons.prems have "t = rev cur \<or> t \<in> set (split_from sep [] s)" by simp
    then show ?thesis using Cons.prems(2) Cons.IH [of "[]"] by auto
  next
    case False
    with Cons.prems have "t \<in> set (split_from sep (c # cur) s)" by simp
    moreover have "sep \<notin> set (c # cur)" using False Cons.prems(2) by simp
    ultimately show ?thesis by (rule Cons.IH)
  qed
qed

lemma length_split_from: "length (split_from sep cur s) = Suc (count_list s sep)"
  by (induction s arbitrary: cur) auto

lemma trim_decompose:
  "t = takeWhile isWhiteSpace t @ trim t @ rev (takeWhile isWhiteSpace (rev (dropWhile isWhiteSpace t)))"
proof -
  let ?d = "dropWhile isWhiteSpace t"
  have "rev ?d = takeWhile isWhiteSpace (rev ?d) @ dropWhile isWhiteSpace (rev ?d)"
    by simp
  then have "?d = rev (dropWhile isWhiteSpace (rev ?d)) @ rev (takeWhile isWhiteSpace (rev ?d))"
    by (metis rev_append rev_rev_ident)
  then show ?thesis
    unfolding trim_def by (metis takeWhile_dropWhile_id)
qed

lemma last_dropWhile: "dropWhile P xs \<noteq> [] \<Longrightarrow> last (dropWhile P xs) = last xs"
  by (induction xs) (auto split: if_splits)

lemma trim_hd:
  assumes "trim t \<noteq> []"
  shows "\<not> isWhiteSpace (hd (trim t))"
proof -
  let ?d = "dropWhile isWhiteSpace t"
  from assms have ne: "dropWhile isWhiteSpace (rev ?d) \<noteq> []"
    by (simp add: trim_def)
  then have d: "?d \<noteq> []" by (cases "?d") simp_all
  have "hd (trim t) = last (dropWhile isWhiteSpace (rev ?d))"
    using ne by (simp add: trim_def hd_rev)
  also have "\<dots> = last (rev ?d)" using ne by (rule last_dropWhile)
  also have "\<dots> = hd ?d" using d by (simp add: last_rev)
  finally show ?thesis using d by (simp add: hd_dropWhile)
qed

lemma trim_last: "trim t \<noteq> [] \<Longrightarrow> \<not> isWhiteSpace (last (trim t))"
  unfolding trim_def by (simp add: last_rev hd_dropWhile)

lemma urls_differ: "municipality_barangays_url c \<noteq> city_barangays_url c'"
  by (simp add: municipality_barangays_url_def city_barangays_url_def js_def)

lemma city_url_inj: "city_barangays_url c' = city_barangays_url c \<longleftrightarrow> c' = c"
  by (simp add: city_barangays_url_def)

lemma fetched_append: "fetched (xs @ ys) = fetched xs @ fetched ys"
  by (induction xs rule: fetched.induct) auto

lemma fetched_failed: "fetched (failed m) = []"
  by (simp add: failed_def)

lemma fetched_loaded: "fetched (snd (loaded w r es s)) = fetched es"
  by (simp add: loaded_def fetched_append fetched_failed split: option.splits)

lemma fetched_fetchBarangays:
  "fetched (snd (fetchBarangays w c s)) =
     (case fetch w (municipality_barangays_url c) of
        Rejected \<Rightarrow> [municipality_barangays_url c]
      | Resolved r \<Rightarrow> if ok r then [municipality_barangays_url c]
                      else [municipality_barangays_url c, city_barangays_url c])"
  by (simp add: fetchBarangays_def fetched_loaded fetched_failed fetched_append
           split: fetch_result.splits)

lemma or_else_empty: "or_else x [] = x"
  by (simp add: or_else_def)

lemma find_code:
  "(case find P xs of None \<Rightarrow> (\<forall>m\<in>set xs. \<not> P m) | Some m \<Rightarrow> m \<in> set xs \<and> P m)"
  by (induction xs) (auto split: option.splits)

lemma after_simps:
  "component (after (s, es, ts) c) = s"
  "inflight (after (s, es, ts) c) = inflight c @ ts"
  "trace (after (s, es, ts) c) = trace c @ es"
  by (simp_all add: after_def)

lemma component_after: "component (after r c) = fst r"
  by (cases r) (simp add: after_def)

lemma inflight_after: "inflight (after r c) = inflight c @ snd (snd r)"
  by (cases r) (simp add: after_def)

lemma handleMunicipalityChange_state:
  "fst (handleMunicipalityChange c s) =
     s\<lparr>formData := (formData s)
          \<lparr>municipality := (case find (\<lambda>m. code m = c) (municipalities s) of
                              None \<Rightarrow> [] | Some m \<Rightarrow> name m),
           location := []\<rparr>,
       barangays := []\<rparr>"
  by (simp add: handleMunicipalityChange_def Let_def or_else_empty cong: option.case_cong)

lemma handleMunicipalityChange_calls:
  "snd (handleMunicipalityChange c s) = ([], if c = [] then [] else [FetchBarangays c])"
  by (simp add: handleMunicipalityChange_def Let_def)

lemma barangays_saved: "barangays s = [] \<Longrightarrow> barangays (fst (saved f g err s)) = []"
  by (simp add: saved_def resetForm_def)

lemma barangays_settle:
  assumes "settle t a s = Some r" and "barangays s = []" and "\<forall>c. t \<noteq> FetchBarangays c"
  shows "barangays (fst r) = []"
proof (cases t)
  case FetchAccommodations
  with assms show ?thesis
    by (cases a) (auto simp: no_calls_def fetchAccommodations_def split: option.splits)
next
  case FetchMunicipalities
  with assms show ?thesis
    by (cases a)
       (auto simp: no_calls_def fetchMunicipalities_def Let_def
             split: fetch_result.splits option.splits)
next
  case (FetchBarangays c)
  with assms show ?thesis by simp
next
  case Update
  with assms show ?thesis
    by (cases a) (auto simp: handleSubmit_updated_def barangays_saved)
next
  case Insert
  with assms show ?thesis
    by (cases a) (auto simp: handleSubmit_inserted_def barangays_saved)
next
  case Delete
  with assms show ?thesis
    by (cases a) (auto simp: handleDelete_deleted_def)
qed

lemma settle_barangays_answer:
  "settle (FetchBarangays c) a s = Some r \<Longrightarrow> \<exists>w. a = Answered w"
  by (cases a) auto

lemma barangays_step:
  assumes "barangays (component cfg) = []"
    and "barangays (component (step e cfg)) \<noteq> []"
  shows "\<exists>i w c. e = Settled i (Answered w) \<and> i < length (inflight cfg)
           \<and> inflight cfg ! i = FetchBarangays c"
proof (cases e)
  case (Settled i a)
  show ?thesis
  proof (cases "i < length (inflight cfg)")
    case False
    with Settled assms show ?thesis by simp
  next
    case True
    show ?thesis
    proof (cases "settle (inflight cfg ! i) a (component cfg)")
      case None
      with True Settled assms show ?thesis by simp
    next
      case (Some r)
      with True Settled assms have ne: "barangays (fst r) \<noteq> []"
        by (simp add: component_after)
      with Some assms(1) obtain c where c: "inflight cfg ! i = FetchBarangays c"
        using barangays_settle by blast
      with Some obtain w where "a = Answered w"
        using settle_barangays_answer by metis
      with c True Settled show ?thesis by blast
    qed
  qed
qed (use assms in \<open>auto simp: component_after handleMunicipalityChange_state
       handleLocationChange_def handleSubmit_def handleEdit_def handleDelete_def
       resetForm_def Let_def after_simps split: option.splits if_splits\<close>)

lemma toasts_failed: "filter is_toast (failed m) = [ToastError m]"
  by (simp add: failed_def)

lemma toasts_loaded:
  "\<forall>e\<in>set es. \<not> is_toast e \<Longrightarrow>
   filter is_toast (snd (loaded w r es s)) =
     (if decode (json r) = None then [ToastError ''Failed to load barangays''] else [])"
  by (auto simp: loaded_def toasts_failed split: option.splits)

lemma toasts_fetchBarangays:
  "filter is_toast (snd (fetchBarangays w c s)) =
     (if fetchBarangays_throws w c then [ToastError ''Failed to load barangays''] else [])"
  by (simp add: fetchBarangays_def fetchBarangays_throws_def toasts_loaded toasts_failed
           split: fetch_result.splits)

lemma fetchBarangays_caught: "fetchBarangays_throws w c \<Longrightarrow> fst (fetchBarangays w c s) = s"
  by (auto simp: fetchBarangays_def fetchBarangays_throws_def loaded_def
           split: fetch_result.splits if_splits option.splits)

lemma toasts_fetchMunicipalities:
  "filter is_toast (snd (fetchMunicipalities w s)) =
     (if fetchMunicipalities_throws w then [ToastError ''Failed to load municipalities and cities'']
      else [])"
  by (simp add: fetchMunicipalities_def fetchMunicipalities_throws_def Let_def toasts_failed
           split: fetch_result.splits option.splits)

lemma toasts_saved:
  "filter is_toast (fst (snd (saved f g err s))) = [if err then ToastError f else ToastSuccess g]"
  by (simp add: saved_def)

lemma set_insort_by: "set (insort_by cmp x xs) = insert x (set xs)"
  by (induction xs) auto

lemma count_list_insort_by: "count_list (insort_by cmp x ys) z = count_list (x # ys) z"
  by (induction ys) auto

lemma count_list_sort_by: "count_list (sort_by cmp xs) z = count_list xs z"
  by (induction xs) (auto simp: sort_by_def count_list_insort_by)

lemma sorted_insort_by:
  assumes total: "\<And>a b. cmp a b \<le> 0 \<or> cmp b a \<le> 0"
    and trans: "\<And>a b c. cmp a b \<le> 0 \<Longrightarrow> cmp b c \<le> 0 \<Longrightarrow> cmp a c \<le> 0"
    and sorted: "sorted_wrt (\<lambda>a b. cmp a b \<le> 0) ys"
  shows "sorted_wrt (\<lambda>a b. cmp a b \<le> (0::int)) (insort_by cmp x ys)"
  using sorted
proof (induction ys)
  case Nil
  then show ?case by simp
next
  case (Cons y ys)
  show ?case
  proof (cases "cmp x y \<le> 0")
    case True
    with Cons.prems trans show ?thesis by auto
  next
    case False
    with total have "cmp y x \<le> 0" by blast
    with False Cons show ?thesis by (auto simp: set_insort_by)
  qed
qed

lemma sorted_sort_by:
  assumes "\<And>a b. cmp a b \<le> 0 \<or> cmp b a \<le> 0"
    and "\<And>a b c. cmp a b \<le> 0 \<Longrightarrow> cmp b c \<le> 0 \<Longrightarrow> cmp a c \<le> 0"
  shows "sorted_wrt (\<lambda>a b. cmp a b \<le> (0::int)) (sort_by cmp xs)"
proof (induction xs)
  case Nil
  then show ?case by (simp add: sort_by_def)
next
  case (Cons x xs)
  have "sort_by cmp (x # xs) = insort_by cmp x (sort_by cmp xs)"
    by (simp add: sort_by_def)
  with Cons assms show ?case by (simp add: sorted_insort_by)
qed

lemma filter_insort_by:
  assumes "\<And>y. P x \<Longrightarrow> P y \<Longrightarrow> cmp x y \<le> 0"
  shows "filter P (insort_by cmp x ys) = (if P x then x # filter P ys else filter P ys)"
  using assms by (induction ys) auto

lemma filter_sort_by:
  assumes "\<And>x y. P x \<Longrightarrow> P y \<Longrightarrow> cmp x y \<le> 0"
  shows "filter P (sort_by cmp xs) = filter P xs"
proof (induction xs)
  case Nil
  then show ?case by (simp add: sort_by_def)
next
  case (Cons x xs)
  have "sort_by cmp (x # xs) = insort_by cmp x (sort_by cmp xs)"
    by (simp add: sort_by_def)
  with Cons assms show ?case by (simp add: filter_insort_by)
qed

lemma compare_units_refl: "compare_units x x = 0"
  by (induction x) auto

lemma compare_units_total: "compare_units x y \<le> 0 \<or> compare_units y x \<le> 0"
  by (induction x y rule: compare_units.induct) auto

lemma compare_units_trans:
  "compare_units x y \<le> 0 \<Longrightarrow> compare_units y z \<le> 0 \<Longrightarrow> compare_units x z \<le> 0"
proof (induction x y arbitrary: z rule: compare_units.induct)
  case 1
  then show ?case by simp
next
  case (2 y ys)
  then show ?case by (cases z) auto
next
  case (3 x xs)
  then show ?case by simp
next
  case (4 x xs y ys)
  then show ?case
    by (cases z) (auto split: if_splits)
qed

lemma handleEdit_state:
  "fst (handleEdit a s) =
     s\<lparr>formData :=
         \<lparr>listing.name = listing.name a, description = description a, location = location a,
          municipality = municipality a, category = join (js '', '') (category a),
          image_url = image_url a, contact_number = contact_number a, email = email a,
          price_range = price_range a, amenities = join (js '', '') (amenities a),
          rating = listing.rating a\<rparr>,
       editingId := Some (acc_id a), isOpen := True\<rparr>"
  by (simp add: handleEdit_def Let_def or_else_empty)

lemma fetchBarangays_decoded:
  "fetch w (municipality_barangays_url c) = Resolved r \<Longrightarrow> ok r \<Longrightarrow> decode (json r) = Some rows \<Longrightarrow>
   fst (fetchBarangays w c s) = s\<lparr>barangays := sort_by (by_name w) rows\<rparr>"
  by (simp add: fetchBarangays_def loaded_def)

lemma fetchBarangays_decoded_city:
  "fetch w (municipality_barangays_url c) = Resolved r \<Longrightarrow> \<not> ok r \<Longrightarrow>
   fetch w (city_barangays_url c) = Resolved r2 \<Longrightarrow> decode (json r2) = Some rows \<Longrightarrow>
   fst (fetchBarangays w c s) = s\<lparr>barangays := sort_by (by_name w) rows\<rparr>"
  by (simp add: fetchBarangays_def loaded_def)

lemma fetchBarangays_cases:
  "fetchBarangays_throws w c
   \<or> (\<exists>r rows. fetch w (municipality_barangays_url c) = Resolved r \<and> ok r \<and> decode (json r) = Some rows)
   \<or> (\<exists>r r2 rows. fetch w (municipality_barangays_url c) = Resolved r \<and> \<not> ok r
         \<and> fetch w (city_barangays_url c) = Resolved r2 \<and> decode (json r2) = Some rows)"
  by (auto simp: fetchBarangays_throws_def split: fetch_result.splits)

subsection \<open>Rounding\<close>

lemma bitlen_powi:
  assumes "0 < a"
  shows "(2::rat) powi (bitlen a - 1) \<le> of_int a" and "of_int a < (2::rat) powi (bitlen a)"
proof -
  from assms have pos: "1 \<le> bitlen a"
    by (auto simp: bitlen_alt_def)
  from bitlen_bounds [OF assms]
  have lo: "2 ^ nat (bitlen a - 1) \<le> a" and hi: "a < 2 ^ nat (bitlen a)"
    by simp_all
  have "(2::rat) powi (bitlen a - 1) = 2 ^ nat (bitlen a - 1)"
    using pos by (simp add: power_int_def)
  also have "\<dots> = of_int (2 ^ nat (bitlen a - 1))"
    by simp
  also have "\<dots> \<le> of_int a"
    using lo by (simp only: of_int_le_iff)
  finally show "(2::rat) powi (bitlen a - 1) \<le> of_int a" .
  have "of_int a < (of_int (2 ^ nat (bitlen a)) :: rat)"
    using hi by (simp only: of_int_less_iff)
  also have "\<dots> = 2 ^ nat (bitlen a)"
    by simp
  also have "\<dots> = 2 powi (bitlen a)"
    using pos by (simp add: power_int_def)
  finally show "of_int a < (2::rat) powi (bitlen a)" .
qed

lemma ilog2_bounds:
  assumes "0 < x"
  shows "2 powi (ilog2 x) \<le> x" and "x < 2 powi (ilog2 x + 1)"
proof -
  obtain a b where q: "quotient_of x = (a, b)"
    by (cases "quotient_of x")
  then have b: "0 < b" and x: "x = of_int a / of_int b"
    by (simp_all add: quotient_of_denom_pos quotient_of_div)
  with assms have a: "0 < a"
    by (simp add: zero_less_divide_iff)
  let ?k = "bitlen a - bitlen b"
  have upper: "x < 2 powi (?k + 1)"
  proof -
    have "x < 2 powi (bitlen a) / of_int b"
      unfolding x using bitlen_powi(2) [OF a] b by (simp add: divide_strict_right_mono)
    also have "\<dots> \<le> 2 powi (bitlen a) / 2 powi (bitlen b - 1)"
      using bitlen_powi(1) [OF b] b by (intro divide_left_mono) (auto intro!: mult_pos_pos)
    also have "\<dots> = 2 powi (bitlen a - (bitlen b - 1))"
      by (rule power_int_diff [symmetric]) simp
    also have "bitlen a - (bitlen b - 1) = ?k + 1"
      by simp
    finally show ?thesis .
  qed
  have lower: "2 powi (?k - 1) < x"
  proof -
    have "?k - 1 = bitlen a - 1 - bitlen b"
      by simp
    then have "(2::rat) powi (?k - 1) = 2 powi (bitlen a - 1 - bitlen b)"
      by (rule arg_cong)
    also have "\<dots> = 2 powi (bitlen a - 1) / 2 powi (bitlen b)"
      by (rule power_int_diff) simp
    also have "\<dots> \<le> of_int a / 2 powi (bitlen b)"
      using bitlen_powi(1) [OF a] by (simp add: divide_right_mono)
    also have "\<dots> < of_int a / of_int b"
      using bitlen_powi(2) [OF b] a b by (intro divide_strict_left_mono) (auto intro!: mult_pos_pos)
    finally show ?thesis by (simp add: x)
  qed
  show "2 powi (ilog2 x) \<le> x"
    using lower q by (auto simp: ilog2_def Let_def)
  show "x < 2 powi (ilog2 x + 1)"
    using upper q by (auto simp: ilog2_def Let_def not_le)
qed

lemma round_even_error: "\<bar>of_int (round_even y) - y\<bar> \<le> 1 / 2"
proof -
  have lo: "of_int \<lfloor>y\<rfloor> \<le> y" and hi: "y < of_int \<lfloor>y\<rfloor> + 1"
    by linarith+
  show ?thesis
    unfolding round_even_def Let_def using lo hi by (simp add: abs_le_iff)
qed

lemma round_even_of_int: "round_even (of_int m) = m"
  by (simp add: round_even_def)

lemma ilog2_less: "0 < x \<Longrightarrow> x < 2 powi k \<Longrightarrow> ilog2 x < k"
proof (rule ccontr)
  assume x: "0 < x" "x < 2 powi k" and "\<not> ilog2 x < k"
  then have "(2::rat) powi k \<le> 2 powi (ilog2 x)"
    by (intro power_int_increasing) simp_all
  also have "\<dots> \<le> x" using x(1) by (rule ilog2_bounds)
  finally show False using x(2) by simp
qed

lemma ilog2_ge: "0 < x \<Longrightarrow> 2 powi k \<le> x \<Longrightarrow> k \<le> ilog2 x"
proof (rule ccontr)
  assume x: "0 < x" "2 powi k \<le> x" and "\<not> k \<le> ilog2 x"
  then have "ilog2 x + 1 \<le> k" by simp
  then have "(2::rat) powi (ilog2 x + 1) \<le> 2 powi k"
    by (intro power_int_increasing) simp_all
  with ilog2_bounds(2) [OF x(1)] x(2) show False by simp
qed

lemma scaled_error:
  fixes u :: rat
  assumes "0 < u"
  shows "\<bar>a * u - x\<bar> = \<bar>a - x / u\<bar> * u"
proof -
  have "a * u - x = (a - x / u) * u"
    using assms by (simp add: field_simps)
  then show ?thesis
    using assms by (simp add: abs_mult)
qed

lemma powi_neg_nat: "(2::rat) powi (- int m) = 1 / 2 ^ m"
  by (simp add: power_int_minus_divide)

lemma fl_error:
  assumes "0 < x" and "2 powi (- 1022) \<le> x"
  shows "\<bar>fl x - x\<bar> \<le> x / 2 ^ 53"
proof -
  let ?e = "ilog2 x - 52"
  let ?u = "(2::rat) powi ?e"
  have "- 1022 \<le> ilog2 x" using assms by (rule ilog2_ge)
  then have e: "max (ilog2 \<bar>x\<bar> - 52) (- 1074) = ?e"
    using assms(1) by simp
  have u: "0 < ?u" by simp
  have fl: "fl x = of_int (round_even (x / ?u)) * ?u"
    using assms(1) e by (simp add: fl_def Let_def)
  have "\<bar>fl x - x\<bar> = \<bar>of_int (round_even (x / ?u)) - x / ?u\<bar> * ?u"
    unfolding fl using u by (rule scaled_error)
  also have "\<dots> \<le> 1 / 2 * ?u"
    using round_even_error [of "x / ?u"] u by (intro mult_right_mono) simp_all
  also have "\<dots> = 2 powi (ilog2 x - 53)"
    by (simp add: power_int_diff)
  also have "\<dots> = 2 powi (ilog2 x) / 2 ^ 53"
    by (simp add: power_int_diff)
  also have "\<dots> \<le> x / 2 ^ 53"
    using ilog2_bounds(1) [OF assms(1)] by (simp add: divide_right_mono)
  finally show ?thesis .
qed

lemma fl_of_nat:
  assumes "k < 2 ^ 53"
  shows "fl (of_nat k) = of_nat k"
proof (cases "k = 0")
  case True
  then show ?thesis by (simp add: fl_def)
next
  case False
  let ?x = "of_nat k :: rat"
  from False have pos: "0 < ?x" by simp
  have "?x < 2 ^ 53"
    using assms by (metis of_nat_less_iff of_nat_numeral of_nat_power)
  then have "?x < 2 powi 53" by simp
  with pos have hi: "ilog2 ?x < 53" by (rule ilog2_less)
  have "(2::rat) powi 0 \<le> ?x" using False by simp
  with pos have lo: "0 \<le> ilog2 ?x" by (rule ilog2_ge)
  let ?m = "nat (52 - ilog2 ?x)"
  have e: "max (ilog2 ?x - 52) (- 1074) = - int ?m"
    using lo hi by simp
  have u: "(2::rat) powi (- int ?m) = 1 / 2 ^ ?m"
    by (rule powi_neg_nat)
  have "fl ?x = of_int (round_even (?x / 2 powi (max (ilog2 ?x - 52) (- 1074))))
      * 2 powi (max (ilog2 ?x - 52) (- 1074))"
    using False by (simp add: fl_def Let_def)
  also have "\<dots> = of_int (round_even (?x / (1 / 2 ^ ?m))) * (1 / 2 ^ ?m)"
    unfolding e u ..
  also have "?x / (1 / 2 ^ ?m) = of_int (int k * 2 ^ ?m)"
    by simp
  also have "round_even (of_int (int k * 2 ^ ?m)) = int k * 2 ^ ?m"
    by (rule round_even_of_int)
  also have "of_int (int k * 2 ^ ?m) * (1 / 2 ^ ?m) = ?x"
    by simp
  finally show ?thesis .
qed

lemma nearest_tenth:
  fixes s len n :: nat and x :: rat
  assumes len: "0 < len" and small: "20 * s < 2 ^ 53"
    and x: "\<bar>x - of_nat s / of_nat len\<bar> \<le> (of_nat s / of_nat len) / 2 ^ 53"
    and n: "\<bar>of_nat n - x * 10\<bar> \<le> 1 / 2"
  shows "\<bar>of_nat n / 10 - of_nat s / of_nat len\<bar> \<le> (1 / 20 :: rat)"
proof -
  let ?q = "of_nat s / of_nat len :: rat"
  let ?D = "\<bar>int n * int len - 10 * int s\<bar>"
  have L: "0 < (of_nat len :: rat)" using len by simp
  have D: "(of_int ?D :: rat) = of_nat len * \<bar>of_nat n - ?q * 10\<bar>"
  proof -
    have "of_nat len * \<bar>of_nat n - ?q * 10\<bar> = \<bar>of_nat len * (of_nat n - ?q * 10)\<bar>"
      using L by (simp add: abs_mult)
    also have "of_nat len * (of_nat n - ?q * 10) = (of_int (int n * int len - 10 * int s) :: rat)"
      using L by (simp add: field_simps)
    finally show ?thesis by simp
  qed
  have triangle: "\<bar>a - q * 10\<bar> \<le> 1 / 2 + 10 * b"
    if "\<bar>a - x * 10\<bar> \<le> 1 / 2" and "\<bar>x - q\<bar> \<le> b" for a q b :: rat
    using that by linarith
  have "\<bar>of_nat n - ?q * 10\<bar> \<le> 1 / 2 + 10 * (?q / 2 ^ 53)"
    using n x by (rule triangle)
  then have "of_nat len * \<bar>of_nat n - ?q * 10\<bar> \<le> of_nat len * (1 / 2 + 10 * (?q / 2 ^ 53))"
    using L by (simp only: mult_le_cancel_left_pos)
  also have "\<dots> = of_nat len / 2 + 10 * of_nat s / 2 ^ 53"
    using L by (simp add: field_simps)
  finally have "2 * (of_int ?D :: rat) \<le> of_nat len + 20 * of_nat s / 2 ^ 53"
    unfolding D by simp
  moreover have "(20 * of_nat s / 2 ^ 53 :: rat) < 1"
  proof -
    have "(of_nat (20 * s) :: rat) < of_nat (2 ^ 53)"
      using small by (simp only: of_nat_less_iff)
    then show ?thesis by simp
  qed
  ultimately have "2 * (of_int ?D :: rat) < of_nat len + 1"
    by linarith
  then have "(of_int (2 * ?D) :: rat) < of_int (int len + 1)"
    by simp
  then have "2 * ?D < int len + 1"
    by (simp only: of_int_less_iff)
  then have "2 * ?D \<le> int len"
    by simp
  then have "(of_int (2 * ?D) :: rat) \<le> of_int (int len)"
    by (simp only: of_int_le_iff)
  then have half: "2 * (of_nat len * \<bar>of_nat n - ?q * 10\<bar>) \<le> (of_nat len :: rat)"
    unfolding of_int_mult D by simp
  have "\<bar>of_nat n - ?q * 10\<bar> \<le> 1 / 2"
  proof -
    from half have "of_nat len * (2 * \<bar>of_nat n - ?q * 10\<bar>) \<le> (of_nat len :: rat) * 1"
      by (simp add: mult.left_commute)
    then have "2 * \<bar>of_nat n - ?q * 10\<bar> \<le> 1"
      using L by (simp only: mult_le_cancel_left_pos)
    then show ?thesis by simp
  qed
  then show ?thesis
    by (simp add: abs_le_iff field_simps)
qed

subsection \<open>The displayed average\<close>

declare digits.simps [simp del]

lemma digits_small: "n < 10 \<Longrightarrow> digits n = [char_of (48 + n)]"
  by (subst digits.simps) simp

lemma digits_large: "\<not> n < 10 \<Longrightarrow> digits n = digits (n div 10) @ [char_of (48 + n mod 10)]"
  by (subst digits.simps) simp

lemma digits_nonempty: "digits n \<noteq> []"
  by (subst digits.simps) simp

lemma char_of_48: "char_of (48::nat) = CHR ''0''"
  by code_simp

lemma toFixed_1:
  assumes "0 \<le> x" and "x < 10 ^ 21"
  shows "toFixed 1 x = Some (digits (nat \<lfloor>x * 10 + 1 / 2\<rfloor> div 10) @ ''.''
           @ digits (nat \<lfloor>x * 10 + 1 / 2\<rfloor> mod 10))"
proof -
  let ?n = "nat \<lfloor>x * 10 + 1 / 2\<rfloor>"
  from assms have range: "\<not> 10 ^ 21 \<le> \<bar>x\<bar>" "\<not> x < 0" "\<bar>x\<bar> = x"
    by simp_all
  show ?thesis
  proof (cases "?n < 10")
    case True
    then have "?n div 10 = 0" "?n mod 10 = ?n"
      by simp_all
    then show ?thesis
      using range True
      by (simp add: toFixed_def digits_small [of "?n"] digits_small [of 0] char_of_48 Let_def)
  next
    case False
    have "digits (?n div 10) \<noteq> []" by (rule digits_nonempty)
    then have "\<not> length (digits (?n div 10)) = 0" by simp
    then show ?thesis
      using range False
      by (simp add: toFixed_def digits_large [of "?n"] digits_small [of "?n mod 10"] Let_def)
  qed
qed

lemma sum_reviews_exact:
  "acc + sum_list (map g rs) < 2 ^ 53 \<Longrightarrow>
   foldl (\<lambda>sum r. js_add sum (of_nat (g r))) (of_nat acc) rs = of_nat (acc + sum_list (map g rs))"
proof (induction rs arbitrary: acc)
  case Nil
  then show ?case by simp
next
  case (Cons r rs)
  then have small: "acc + g r < 2 ^ 53" and rest: "(acc + g r) + sum_list (map g rs) < 2 ^ 53"
    by simp_all
  have "js_add (of_nat acc) (of_nat (g r)) = of_nat (acc + g r)"
    using fl_of_nat [OF small] by (simp add: js_add_def)
  then show ?case using Cons.IH [OF rest] by (simp add: add.assoc)
qed

lemma nat_floor_half:
  fixes x :: rat
  assumes "0 \<le> x"
  shows "\<bar>of_nat (nat \<lfloor>x * 10 + 1 / 2\<rfloor>) - x * 10\<bar> \<le> 1 / 2"
proof -
  let ?y = "x * 10 + 1 / 2"
  from assms have "0 \<le> ?y" by simp
  then have "0 \<le> \<lfloor>?y\<rfloor>" by simp
  then have n: "(of_nat (nat \<lfloor>?y\<rfloor>) :: rat) = of_int \<lfloor>?y\<rfloor>"
    by simp
  have "of_int \<lfloor>?y\<rfloor> \<le> ?y" and "?y < of_int \<lfloor>?y\<rfloor> + 1"
    by linarith+
  then have "\<bar>of_int \<lfloor>?y\<rfloor> - x * 10\<bar> \<le> 1 / 2"
    by linarith
  then show ?thesis
    unfolding n .
qed

lemma average_facts:
  assumes ne: "rs \<noteq> []" and len: "length rs < 2 ^ 32"
    and small: "20 * sum_list (map Review.rating rs) < 2 ^ 53"
  shows "averageRating rs = fl (arithmetic_mean rs)"
    and "\<bar>fl (arithmetic_mean rs) - arithmetic_mean rs\<bar> \<le> arithmetic_mean rs / 2 ^ 53"
    and "0 \<le> arithmetic_mean rs" and "arithmetic_mean rs < 10 ^ 21"
    and "0 \<le> fl (arithmetic_mean rs)" and "fl (arithmetic_mean rs) < 10 ^ 21"
    and "\<bar>of_nat (nat \<lfloor>fl (arithmetic_mean rs) * 10 + 1 / 2\<rfloor>) / 10 - arithmetic_mean rs\<bar>
           \<le> (1 / 20 :: rat)"
proof -
  let ?s = "sum_list (map Review.rating rs)"
  let ?len = "length rs"
  let ?q = "of_nat ?s / of_nat ?len :: rat"
  let ?x = "fl ?q"
  let ?n = "nat \<lfloor>?x * 10 + 1 / 2\<rfloor>"
  have q: "arithmetic_mean rs = ?q" by (simp add: arithmetic_mean_def)
  from ne have L: "0 < ?len" by simp
  from small have exact: "0 + ?s < 2 ^ 53"
    by simp
  have "foldl (\<lambda>sum r. js_add sum (of_nat (Review.rating r))) (of_nat 0) rs = of_nat (0 + ?s)"
    using exact by (rule sum_reviews_exact)
  then have x: "averageRating rs = ?x"
    by (simp add: averageRating_def js_div_def)
  have err: "\<bar>?x - ?q\<bar> \<le> ?q / 2 ^ 53"
  proof (cases "?s = 0")
    case True
    then have zero: "?q = 0" by simp
    have "\<bar>fl 0 - 0\<bar> \<le> (0::rat) / 2 ^ 53" by (simp add: fl_def)
    then show ?thesis unfolding zero .
  next
    case False
    then have "1 \<le> ?s" by linarith
    then have one: "(1::rat) \<le> of_nat ?s"
      by (metis of_nat_1 of_nat_le_iff)
    have "(of_nat ?len :: rat) < of_nat (2 ^ 32)"
      using len by (simp only: of_nat_less_iff)
    then have big: "(of_nat ?len :: rat) < 2 ^ 32" by simp
    have "(0::rat) < of_nat ?s" using one by linarith
    moreover have "(0::rat) < of_nat ?len" using L by (simp only: of_nat_0_less_iff)
    ultimately have pos: "0 < ?q" by (rule divide_pos_pos)
    have "(2::rat) powi (- 1022) \<le> 1 / 2 ^ 32"
      by (simp add: power_int_minus_divide)
    also have "\<dots> \<le> 1 / of_nat ?len"
      using L big by (intro divide_left_mono) simp_all
    also have "\<dots> \<le> ?q"
      using L one by (simp add: divide_right_mono)
    finally have "2 powi (- 1022) \<le> ?q" .
    with pos show ?thesis by (rule fl_error)
  qed
  have q0: "0 \<le> ?q" by simp
  have qs: "?q \<le> of_nat ?s"
  proof -
    have "(1::rat) \<le> of_nat ?len"
      using L by (metis Suc_leI of_nat_1 of_nat_le_iff One_nat_def)
    then have "(of_nat ?s :: rat) / of_nat ?len \<le> of_nat ?s / 1"
      using ne by (intro divide_left_mono) simp_all
    then show ?thesis by simp
  qed
  have "(of_nat (20 * ?s) :: rat) < of_nat (2 ^ 53)"
    using small by (simp only: of_nat_less_iff)
  then have s53: "20 * (of_nat ?s :: rat) < 2 ^ 53" by simp
  have shrink: "y / 2 ^ 53 \<le> y" if "0 \<le> y" for y :: rat
  proof -
    have "y / 2 ^ 53 \<le> y / 1"
      using that by (intro divide_left_mono) simp_all
    then show ?thesis by simp
  qed
  have half: "?q / 2 ^ 53 \<le> ?q" using q0 by (rule shrink)
  from err half q0 have x0: "0 \<le> ?x" by linarith
  from err half qs s53 have "?x < 2 ^ 53" by linarith
  also have "(2::rat) ^ 53 < 10 ^ 21" by simp
  finally have x21: "?x < 10 ^ 21" .
  from qs s53 have "?q < 2 ^ 53" by linarith
  also have "(2::rat) ^ 53 < 10 ^ 21" by simp
  finally have q21: "?q < 10 ^ 21" .
  have "\<bar>of_nat ?n - ?x * 10\<bar> \<le> 1 / 2"
    using x0 by (rule nat_floor_half)
  with L small err have near: "\<bar>of_nat ?n / 10 - ?q\<bar> \<le> (1 / 20 :: rat)"
    by (rule nearest_tenth)
  show "averageRating rs = fl (arithmetic_mean rs)" unfolding q by (rule x)
  show "\<bar>fl (arithmetic_mean rs) - arithmetic_mean rs\<bar> \<le> arithmetic_mean rs / 2 ^ 53"
    unfolding q by (rule err)
  show "0 \<le> arithmetic_mean rs" unfolding q by (rule q0)
  show "arithmetic_mean rs < 10 ^ 21" unfolding q by (rule q21)
  show "0 \<le> fl (arithmetic_mean rs)" unfolding q by (rule x0)
  show "fl (arithmetic_mean rs) < 10 ^ 21" unfolding q by (rule x21)
  show "\<bar>of_nat (nat \<lfloor>fl (arithmetic_mean rs) * 10 + 1 / 2\<rfloor>) / 10 - arithmetic_mean rs\<bar>
           \<le> (1 / 20 :: rat)"
    unfolding q by (rule near)
qed

lemma tenth_chosen:
  fixes q x :: rat
  assumes x0: "0 \<le> x" and q0: "0 \<le> q"
    and near: "\<bar>of_nat (nat \<lfloor>x * 10 + 1 / 2\<rfloor>) / 10 - q\<bar> \<le> 1 / 20"
  shows "\<not> halfway q \<Longrightarrow> nat \<lfloor>x * 10 + 1 / 2\<rfloor> = nat \<lfloor>q * 10 + 1 / 2\<rfloor>"
    and "halfway q \<Longrightarrow> q \<le> x \<Longrightarrow> nat \<lfloor>x * 10 + 1 / 2\<rfloor> = nat \<lfloor>q * 10 + 1 / 2\<rfloor>"
    and "halfway q \<Longrightarrow> x < q \<Longrightarrow> Suc (nat \<lfloor>x * 10 + 1 / 2\<rfloor>) = nat \<lfloor>q * 10 + 1 / 2\<rfloor>"
proof -
  let ?n = "\<lfloor>x * 10 + 1 / 2\<rfloor>"
  let ?k = "\<lfloor>q * 10 + 1 / 2\<rfloor>"
  from x0 have n0: "0 \<le> ?n" by simp
  from q0 have k0: "0 \<le> ?k" by simp
  from n0 have "(of_nat (nat ?n) :: rat) = of_int ?n" by simp
  with near have "\<bar>of_int ?n / 10 - q\<bar> \<le> (1 / 20 :: rat)" by simp
  then have lo: "q * 10 - 1 / 2 \<le> of_int ?n" and hi: "of_int ?n \<le> q * 10 + 1 / 2"
    by linarith+
  from hi have le: "?n \<le> ?k" by (simp add: le_floor_iff)
  have kq: "of_int ?k \<le> q * 10 + 1 / 2" and kq': "q * 10 + 1 / 2 < of_int ?k + 1"
    by linarith+
  have nx: "of_int ?n \<le> x * 10 + 1 / 2" and nx': "x * 10 + 1 / 2 < of_int ?n + 1"
    by linarith+
  {
    assume "\<not> halfway q"
    then have "of_int ?k \<noteq> q * 10 + 1 / 2" unfolding halfway_def .
    with kq have "of_int ?k < q * 10 + 1 / 2" by linarith
    with lo have "of_int ?k - 1 < (of_int ?n :: rat)" by linarith
    then have "of_int (?k - 1) < (of_int ?n :: rat)" by simp
    then have "?k - 1 < ?n" by (simp only: of_int_less_iff)
    with le have "?n = ?k" by simp
    then show "nat ?n = nat ?k" by simp
  next
    assume h: "halfway q" and "q \<le> x"
    then have "of_int ?k \<le> x * 10 + 1 / 2" using kq by linarith
    then have "?k \<le> ?n" by (simp add: le_floor_iff)
    with le have "?n = ?k" by simp
    then show "nat ?n = nat ?k" by simp
  next
    assume h: "halfway q" and less: "x < q"
    from h have eq: "of_int ?k = q * 10 + 1 / 2" unfolding halfway_def .
    with less nx have "(of_int ?n :: rat) < of_int ?k" by linarith
    then have "?n < ?k" by (simp only: of_int_less_iff)
    moreover from eq lo have "of_int ?k - 1 \<le> (of_int ?n :: rat)" by linarith
    then have "of_int (?k - 1) \<le> (of_int ?n :: rat)" by simp
    then have "?k - 1 \<le> ?n" by (simp only: of_int_le_iff)
    ultimately have "?n + 1 = ?k" by simp
    with n0 show "Suc (nat ?n) = nat ?k" by linarith
  }
qed

lemma listed_simps:
  "\<not> isLoading (listed ks)" "currentUserId (listed ks) = None"
  "length (reviews (listed ks)) = length ks" "(reviews (listed ks) = []) = (ks = [])"
  "map Review.rating (reviews (listed ks)) = ks"
  by (simp_all add: listed_def review_def comp_def)

lemma mean_listed: "arithmetic_mean (reviews (listed ks)) = of_nat (sum_list ks) / of_nat (length ks)"
  by (simp add: arithmetic_mean_def listed_simps)

section \<open>Selecting a municipality\<close>

text \<open>
  C1, as stated, asks that after every municipality selection the barangay set stays empty
  until the fetch started by that selection resolves. Calls in flight are never cancelled,
  so the answer to an earlier selection can arrive first. Here Daraga and then Legazpi are
  selected: after the second selection the set is empty and both fetches are in flight;
  when the answer for Daraga arrives, the form shows Legazpi, the fetch for Legazpi is
  still in flight, and the barangay set holds the barangays of Daraga.
\<close>

theorem late_answer_counterexample:
  "barangays (component selected_twice) = []
   \<and> inflight selected_twice = [FetchBarangays (code daraga), FetchBarangays (code legazpi)]
   \<and> municipality (formData (component late_answer)) = name legazpi
   \<and> inflight late_answer = [FetchBarangays (code legazpi)]
   \<and> barangays (component late_answer) \<noteq> []"
  by (simp add: js_def municipalities_url_def cities_url_def municipality_barangays_url_def
        city_barangays_url_def served_def not_found_def albay_fetch_def albay_def daraga_def
        legazpi_def daraga_barangays_def legazpi_barangays_def by_name_def failed_def
        sort_by_def loaded_def fetchBarangays_def start_def initial_def emptyForm_def run_def
        after_def no_calls_def fetchAccommodations_def fetchMunicipalities_def stored_def
        inn_def mounted_def Let_def handleMunicipalityChange_def or_else_def selected_twice_def
        late_answer_def)

text \<open>
  C1, amended. For every selection with code \<open>c\<close> and every prior state,
  \<open>handleMunicipalityChange\<close> sets the municipality field to the name of the first loaded
  municipality with code \<open>c\<close> (to the empty string when there is none), sets the location
  field to the empty string and the barangay set to empty, and leaves a barangay fetch for
  \<open>c\<close> in flight when \<open>c\<close> is not empty. From then on the barangay set stays empty under
  every event except the settling of a barangay fetch that is in flight, the one of this
  selection or another.
\<close>

theorem handleMunicipalityChange_resets:
  "formData (fst (handleMunicipalityChange c s)) =
       (formData s)\<lparr>municipality := (case find (\<lambda>m. code m = c) (municipalities s) of
                                       None \<Rightarrow> [] | Some m \<Rightarrow> name m),
                    location := []\<rparr>
   \<and> ((\<exists>m\<in>set (municipalities s). code m = c
          \<and> municipality (formData (fst (handleMunicipalityChange c s))) = name m)
        \<or> ((\<forall>m\<in>set (municipalities s). code m \<noteq> c)
            \<and> municipality (formData (fst (handleMunicipalityChange c s))) = []))
   \<and> location (formData (fst (handleMunicipalityChange c s))) = []
   \<and> barangays (fst (handleMunicipalityChange c s)) = []
   \<and> snd (handleMunicipalityChange c s) = ([], if c = [] then [] else [FetchBarangays c])
   \<and> barangays (component (step (MunicipalitySelected c) cfg)) = []
   \<and> inflight (step (MunicipalitySelected c) cfg) =
       inflight cfg @ (if c = [] then [] else [FetchBarangays c])
   \<and> (barangays (component cfg) = [] \<and> barangays (component (step e cfg)) \<noteq> [] \<longrightarrow>
        (\<exists>i w c'. e = Settled i (Answered w) \<and> i < length (inflight cfg)
                  \<and> inflight cfg ! i = FetchBarangays c'))"
proof -
  let ?s' = "fst (handleMunicipalityChange c s)"
  have form: "formData ?s' =
       (formData s)\<lparr>municipality := (case find (\<lambda>m. code m = c) (municipalities s) of
                                       None \<Rightarrow> [] | Some m \<Rightarrow> name m),
                    location := []\<rparr>"
    by (simp add: handleMunicipalityChange_state)
  have resolved: "(\<exists>m\<in>set (municipalities s). code m = c \<and> municipality (formData ?s') = name m)
        \<or> ((\<forall>m\<in>set (municipalities s). code m \<noteq> c) \<and> municipality (formData ?s') = [])"
    using find_code [where P = "\<lambda>m. code m = c" and xs = "municipalities s"]
    by (auto simp: form split: option.splits)
  have loc: "location (formData ?s') = []"
    by (simp add: form)
  have cleared: "barangays ?s' = []"
    by (simp add: handleMunicipalityChange_state)
  have calls: "snd (handleMunicipalityChange c s) = ([], if c = [] then [] else [FetchBarangays c])"
    by (rule handleMunicipalityChange_calls)
  have stepped: "barangays (component (step (MunicipalitySelected c) cfg)) = []"
    by (simp add: component_after handleMunicipalityChange_state)
  have spawned: "inflight (step (MunicipalitySelected c) cfg) =
       inflight cfg @ (if c = [] then [] else [FetchBarangays c])"
    by (simp add: inflight_after handleMunicipalityChange_calls)
  have stays: "barangays (component cfg) = [] \<and> barangays (component (step e cfg)) \<noteq> [] \<longrightarrow>
        (\<exists>i w c'. e = Settled i (Answered w) \<and> i < length (inflight cfg)
                  \<and> inflight cfg ! i = FetchBarangays c')"
    using barangays_step by blast
  from form resolved loc cleared calls stepped spawned stays show ?thesis
    by (intro conjI)
qed

theorem handleMunicipalityChange_resets_witness:
  "location (formData (component editing)) \<noteq> []
   \<and> location (formData (fst (handleMunicipalityChange (code daraga) (component editing)))) = []
   \<and> barangays (component selected_twice) = []
   \<and> barangays (component (step (Settled 0 (Answered albay)) selected_twice)) \<noteq> []
   \<and> (\<exists>i w c'. Settled 0 (Answered albay) = Settled i (Answered w)
         \<and> i < length (inflight selected_twice)
         \<and> inflight selected_twice ! i = FetchBarangays c')"
proof -
  have filled: "location (formData (component editing)) \<noteq> []"
    by (simp add: js_def municipalities_url_def cities_url_def municipality_barangays_url_def
          city_barangays_url_def served_def not_found_def albay_fetch_def albay_def daraga_def
          legazpi_def daraga_barangays_def legazpi_barangays_def by_name_def failed_def
          sort_by_def loaded_def fetchBarangays_def start_def initial_def emptyForm_def run_def
          after_def no_calls_def fetchAccommodations_def fetchMunicipalities_def stored_def
          inn_def mounted_def Let_def handleEdit_def or_else_def editing_def)
  have before: "barangays (component selected_twice) = []"
    by (simp add: js_def municipalities_url_def cities_url_def municipality_barangays_url_def
          city_barangays_url_def served_def not_found_def albay_fetch_def albay_def daraga_def
          legazpi_def daraga_barangays_def legazpi_barangays_def by_name_def failed_def
          sort_by_def loaded_def fetchBarangays_def start_def initial_def emptyForm_def run_def
          after_def no_calls_def fetchAccommodations_def fetchMunicipalities_def stored_def
          inn_def mounted_def Let_def handleMunicipalityChange_def or_else_def
          selected_twice_def)
  have afterwards: "barangays (component (step (Settled 0 (Answered albay)) selected_twice)) \<noteq> []"
    by (simp add: js_def municipalities_url_def cities_url_def municipality_barangays_url_def
          city_barangays_url_def served_def not_found_def albay_fetch_def albay_def daraga_def
          legazpi_def daraga_barangays_def legazpi_barangays_def by_name_def failed_def
          sort_by_def loaded_def fetchBarangays_def start_def initial_def emptyForm_def run_def
          after_def no_calls_def fetchAccommodations_def fetchMunicipalities_def stored_def
          inn_def mounted_def Let_def handleMunicipalityChange_def or_else_def
          selected_twice_def)
  from handleMunicipalityChange_resets
    [of "code daraga" "component editing" selected_twice "Settled 0 (Answered albay)"]
    filled before afterwards
  show ?thesis by blast
qed

section \<open>Sending an accommodation to the store\<close>

text \<open>
  C2. The record that \<open>handleSubmit\<close> sends to the store, by insert or by update, has as
  \<open>category\<close> and \<open>amenities\<close> the trimmed tokens of the comma split of the two form
  fields, in their order, one token more than there are commas: nothing is removed, neither
  a repeated nor an empty token. The split is the inverse of joining with commas and no
  token contains a comma; a token is its trimmed form between two runs of white space, and
  a trimmed token neither starts nor ends with white space.
\<close>

theorem handleSubmit_tags:
  "(\<exists>d. (fst (snd (handleSubmit s)) = [InsertAccommodation d]
          \<or> (\<exists>i. fst (snd (handleSubmit s)) = [UpdateAccommodation d i]))
        \<and> category d = map trim (split_comma (category (formData s)))
        \<and> amenities d = map trim (split_comma (amenities (formData s)))
        \<and> length (category d) = Suc (count_list (category (formData s)) comma)
        \<and> length (amenities d) = Suc (count_list (amenities (formData s)) comma))
   \<and> join [comma] (split_comma x) = x
   \<and> (\<forall>t\<in>set (split_comma x). comma \<notin> set t)
   \<and> (\<exists>pre post. t = pre @ trim t @ post \<and> (\<forall>c\<in>set (pre @ post). isWhiteSpace c))
   \<and> (trim t \<noteq> [] \<longrightarrow> \<not> isWhiteSpace (hd (trim t)) \<and> \<not> isWhiteSpace (last (trim t)))"
proof -
  let ?d = "accommodationData (formData s)"
  have sent: "fst (snd (handleSubmit s)) = [InsertAccommodation ?d]
          \<or> (\<exists>i. fst (snd (handleSubmit s)) = [UpdateAccommodation ?d i])"
    by (simp add: handleSubmit_def split: option.splits)
  have tags: "category ?d = map trim (split_comma (category (formData s)))"
    "amenities ?d = map trim (split_comma (amenities (formData s)))"
    by (simp_all add: accommodationData_def)
  have len: "length (category ?d) = Suc (count_list (category (formData s)) comma)"
    "length (amenities ?d) = Suc (count_list (amenities (formData s)) comma)"
    by (simp_all add: tags split_comma_def length_split_from)
  have first: "\<exists>d. (fst (snd (handleSubmit s)) = [InsertAccommodation d]
          \<or> (\<exists>i. fst (snd (handleSubmit s)) = [UpdateAccommodation d i]))
        \<and> category d = map trim (split_comma (category (formData s)))
        \<and> amenities d = map trim (split_comma (amenities (formData s)))
        \<and> length (category d) = Suc (count_list (category (formData s)) comma)
        \<and> length (amenities d) = Suc (count_list (amenities (formData s)) comma)"
    using sent tags len by blast
  have inv: "join [comma] (split_comma x) = x"
    by (simp add: split_comma_def join_split_from)
  have free: "\<forall>t\<in>set (split_comma x). comma \<notin> set t"
    by (auto simp: split_comma_def dest: split_from_free)
  have ws: "\<forall>c\<in>set (takeWhile isWhiteSpace t @ rev (takeWhile isWhiteSpace (rev (dropWhile isWhiteSpace t)))). isWhiteSpace c"
    by (auto dest: set_takeWhileD)
  have dec: "\<exists>pre post. t = pre @ trim t @ post \<and> (\<forall>c\<in>set (pre @ post). isWhiteSpace c)"
    using trim_decompose [of t] ws by blast
  have ends: "trim t \<noteq> [] \<longrightarrow> \<not> isWhiteSpace (hd (trim t)) \<and> \<not> isWhiteSpace (last (trim t))"
    using trim_hd trim_last by blast
  show ?thesis using first inv free dec ends by blast
qed

theorem handleSubmit_tags_witness:
  "category (accommodationData (formData stray_commas))
       = [js ''Luxury'', js ''Beach Resort'', [], js ''Luxury'', []]
   \<and> amenities (accommodationData (formData stray_commas)) = [js ''WiFi'', js ''Pool'']
   \<and> js ''a'' \<in> set (split_comma (js ''a,,b'')) \<and> comma \<notin> set (js ''a'')
   \<and> trim (js '' a b '') \<noteq> []
   \<and> \<not> isWhiteSpace (hd (trim (js '' a b '')))
   \<and> \<not> isWhiteSpace (last (trim (js '' a b '')))"
proof -
  have tags: "category (accommodationData (formData stray_commas))
       = [js ''Luxury'', js ''Beach Resort'', [], js ''Luxury'', []]"
    "amenities (accommodationData (formData stray_commas)) = [js ''WiFi'', js ''Pool'']"
    by (simp_all add: js_def accommodationData_def stray_commas_def initial_def emptyForm_def
          split_comma_def comma_def trim_def isWhiteSpace_def)
  have token: "js ''a'' \<in> set (split_comma (js ''a,,b''))"
    by (simp add: js_def split_comma_def comma_def)
  have kept: "trim (js '' a b '') \<noteq> []"
    by (simp add: js_def trim_def isWhiteSpace_def)
  from handleSubmit_tags [of stray_commas "js ''a,,b''" "js '' a b ''"] tags token kept
  show ?thesis by blast
qed

section \<open>Fetching the barangays\<close>

text \<open>
  C3. \<open>fetchBarangays\<close> for the code \<open>c\<close> queries the municipality endpoint for \<open>c\<close> first.
  It queries a city endpoint exactly when that first request resolved to a response that
  is not ok, and then for the same code \<open>c\<close>; it queries nothing else.
\<close>

theorem fetchBarangays_fallback:
  "hd (fetched (snd (fetchBarangays w c s))) = municipality_barangays_url c
   \<and> ((\<exists>c'. city_barangays_url c' \<in> set (fetched (snd (fetchBarangays w c s))))
        \<longleftrightarrow> (\<exists>r. fetch w (municipality_barangays_url c) = Resolved r \<and> \<not> ok r))
   \<and> (\<forall>c'. city_barangays_url c' \<in> set (fetched (snd (fetchBarangays w c s))) \<longrightarrow> c' = c)
   \<and> (fetched (snd (fetchBarangays w c s)) = [municipality_barangays_url c]
        \<or> fetched (snd (fetchBarangays w c s)) = [municipality_barangays_url c, city_barangays_url c])"
  by (cases "fetch w (municipality_barangays_url c)")
     (auto simp: fetched_fetchBarangays urls_differ [symmetric] city_url_inj)

theorem fetchBarangays_fallback_witness:
  "fetch albay (municipality_barangays_url (code legazpi)) = Resolved \<lparr>ok = False, json = Unparsable\<rparr>
   \<and> hd (fetched (snd (fetchBarangays albay (code legazpi) initial)))
       = municipality_barangays_url (code legazpi)
   \<and> (\<exists>c'. city_barangays_url c' \<in> set (fetched (snd (fetchBarangays albay (code legazpi) initial))))"
proof -
  have refused: "fetch albay (municipality_barangays_url (code legazpi))
      = Resolved \<lparr>ok = False, json = Unparsable\<rparr>"
    by (simp add: js_def municipalities_url_def cities_url_def municipality_barangays_url_def
          city_barangays_url_def served_def not_found_def albay_fetch_def albay_def daraga_def
          legazpi_def daraga_barangays_def legazpi_barangays_def)
  then have "\<exists>r. fetch albay (municipality_barangays_url (code legazpi)) = Resolved r \<and> \<not> ok r"
    by simp
  with fetchBarangays_fallback [of albay "code legazpi" initial] refused
  show ?thesis by blast
qed

text \<open>
  C4, as stated, asks that after a barangay fetch that fails totally the barangay set is
  empty whatever the caller and whatever the set held before. The \<open>catch\<close> block only
  logs and notifies; \<open>handleEdit\<close> does not clear the set before it fetches. Here the
  stored accommodation is opened, its barangays arrive, the dialog is dismissed, the
  accommodation is opened again and the fetch is rejected: the notification is surfaced
  and the barangay set still holds the barangays loaded before.
\<close>

theorem edited_twice_counterexample:
  "inflight reopened = [FetchBarangays (code daraga)]
   \<and> fetchBarangays_throws offline (code daraga)
   \<and> last (trace edited_twice) = ToastError ''Failed to load barangays''
   \<and> barangays (component edited_twice) = barangays (component reopened)
   \<and> barangays (component edited_twice) \<noteq> []"
  by (simp add: js_def municipalities_url_def cities_url_def municipality_barangays_url_def
        city_barangays_url_def served_def not_found_def albay_fetch_def albay_def daraga_def
        legazpi_def daraga_barangays_def legazpi_barangays_def by_name_def failed_def
        sort_by_def loaded_def fetchBarangays_def start_def initial_def emptyForm_def run_def
        after_def no_calls_def fetchAccommodations_def fetchMunicipalities_def stored_def
        inn_def mounted_def Let_def handleEdit_def or_else_def editing_def reopened_def
        edited_twice_def fetchBarangays_throws_def offline_def no_network_def)

text \<open>
  C4, amended. Whenever \<open>fetchBarangays\<close> raises (a request is rejected, or the body of
  the response it uses cannot be decoded), exactly one notification, the error
  \<open>Failed to load barangays\<close>, is surfaced and the state of the component, the barangay
  set included, is left as it was before the fetch resolved. So the set is empty afterwards
  when the fetch resolves in the state that \<open>handleMunicipalityChange\<close> left, which
  cleared the set before fetching.
\<close>

theorem fetchBarangays_failure:
  "fetchBarangays_throws w c \<longrightarrow>
     fst (fetchBarangays w c s) = s
     \<and> filter is_toast (snd (fetchBarangays w c s)) = [ToastError ''Failed to load barangays'']
     \<and> barangays (fst (fetchBarangays w c (fst (handleMunicipalityChange c s)))) = []"
  by (simp add: fetchBarangays_caught toasts_fetchBarangays handleMunicipalityChange_state)

theorem fetchBarangays_failure_witness:
  "fetchBarangays_throws offline (code daraga)
   \<and> fst (fetchBarangays offline (code daraga) (component reopened)) = component reopened
   \<and> filter is_toast (snd (fetchBarangays offline (code daraga) (component reopened)))
       = [ToastError ''Failed to load barangays'']
   \<and> barangays (fst (fetchBarangays offline (code daraga)
         (fst (handleMunicipalityChange (code daraga) (component reopened))))) = []"
proof -
  have down: "fetchBarangays_throws offline (code daraga)"
    by (simp add: fetchBarangays_throws_def offline_def no_network_def)
  with fetchBarangays_failure [of offline "code daraga" "component reopened"]
  show ?thesis by blast
qed

section \<open>Notifications\<close>

text \<open>
  C5, as stated, asks that every remote operation notifies when it resolves, the list
  fetch on failure included. \<open>fetchAccommodations\<close> never notifies: when the store answers
  with an error the state and the screen stay as they were. A barangay fetch that
  succeeds does not notify either.
\<close>

theorem silent_fetch_counterexample:
  "error unreachable
   \<and> fetchAccommodations unreachable (component mounted) = (component mounted, [SelectAccommodations])
   \<and> filter is_toast (snd (fetchAccommodations stored initial)) = []
   \<and> \<not> fetchBarangays_throws albay (code daraga)
   \<and> filter is_toast (snd (fetchBarangays albay (code daraga) initial)) = []"
  by (simp add: js_def municipalities_url_def cities_url_def municipality_barangays_url_def
        city_barangays_url_def served_def not_found_def albay_fetch_def albay_def daraga_def
        legazpi_def daraga_barangays_def legazpi_barangays_def by_name_def failed_def
        sort_by_def loaded_def fetchBarangays_def start_def initial_def emptyForm_def run_def
        after_def no_calls_def fetchAccommodations_def fetchMunicipalities_def stored_def
        inn_def mounted_def Let_def unreachable_def fetchBarangays_throws_def)

text \<open>
  C5, amended. Every write to the store notifies exactly once when it resolves, an error
  when the store answered with an error and a success otherwise: the update, the insert
  and the delete of an accommodation, the insert and the delete of a review. The fetches
  of the geographic service notify exactly when they raise, and then once, with an error.
  The list fetch does not notify when it succeeds.
\<close>

theorem notify_on_resolution:
  "filter is_toast (fst (snd (handleSubmit_updated err s))) =
       [if err then ToastError ''Failed to update accommodation''
        else ToastSuccess ''Accommodation updated successfully'']
   \<and> filter is_toast (fst (snd (handleSubmit_inserted err s))) =
       [if err then ToastError ''Failed to add accommodation''
        else ToastSuccess ''Accommodation added successfully'']
   \<and> filter is_toast (fst (snd (handleDelete_deleted err s))) =
       [if err then ToastError ''Failed to delete accommodation''
        else ToastSuccess ''Accommodation deleted successfully'']
   \<and> filter is_notification (snd (ReviewForm_handleSubmit_inserted err d)) =
       [if err then Toast ''Error'' ''Failed to submit review'' True
        else Toast ''Success'' ''Review submitted successfully'' False]
   \<and> filter is_notification (handleDeleteReview_deleted err) =
       [if err then Toast ''Error'' ''Failed to delete review'' True
        else Toast ''Success'' ''Review deleted successfully'' False]
   \<and> filter is_toast (snd (fetchBarangays w c s)) =
       (if fetchBarangays_throws w c then [ToastError ''Failed to load barangays''] else [])
   \<and> filter is_toast (snd (fetchMunicipalities w s)) =
       (if fetchMunicipalities_throws w
        then [ToastError ''Failed to load municipalities and cities''] else [])
   \<and> (data r \<noteq> None \<and> \<not> error r \<longrightarrow> filter is_toast (snd (fetchAccommodations r s)) = [])"
proof -
  have writes: "filter is_toast (fst (snd (handleSubmit_updated err s))) =
       [if err then ToastError ''Failed to update accommodation''
        else ToastSuccess ''Accommodation updated successfully'']"
    "filter is_toast (fst (snd (handleSubmit_inserted err s))) =
       [if err then ToastError ''Failed to add accommodation''
        else ToastSuccess ''Accommodation added successfully'']"
    "filter is_toast (fst (snd (handleDelete_deleted err s))) =
       [if err then ToastError ''Failed to delete accommodation''
        else ToastSuccess ''Accommodation deleted successfully'']"
    by (simp_all add: handleSubmit_updated_def handleSubmit_inserted_def toasts_saved
          handleDelete_deleted_def)
  have reviews: "filter is_notification (snd (ReviewForm_handleSubmit_inserted err d)) =
       [if err then Toast ''Error'' ''Failed to submit review'' True
        else Toast ''Success'' ''Review submitted successfully'' False]"
    "filter is_notification (handleDeleteReview_deleted err) =
       [if err then Toast ''Error'' ''Failed to delete review'' True
        else Toast ''Success'' ''Review deleted successfully'' False]"
    by (simp_all add: ReviewForm_handleSubmit_inserted_def handleDeleteReview_deleted_def)
  have listed: "data r \<noteq> None \<and> \<not> error r \<longrightarrow> filter is_toast (snd (fetchAccommodations r s)) = []"
    by (auto simp: fetchAccommodations_def)
  from writes reviews listed show ?thesis
    by (simp only: toasts_fetchBarangays toasts_fetchMunicipalities simp_thms)
qed

theorem notify_on_resolution_witness:
  "data stored \<noteq> None \<and> \<not> error stored
   \<and> filter is_toast (snd (fetchAccommodations stored initial)) = []
   \<and> filter is_toast (fst (snd (handleSubmit_updated True initial)))
       = [ToastError ''Failed to update accommodation'']
   \<and> filter is_toast (snd (fetchBarangays offline (code daraga) initial))
       = [ToastError ''Failed to load barangays'']"
proof -
  have ok: "data stored \<noteq> None \<and> \<not> error stored"
    by (simp add: stored_def)
  have down: "fetchBarangays_throws offline (code daraga)"
    by (simp add: fetchBarangays_throws_def offline_def no_network_def)
  from notify_on_resolution [of True initial undefined offline "code daraga" stored] ok down
  show ?thesis by simp
qed

section \<open>Editing an accommodation\<close>

text \<open>
  C6, as stated, asks that the barangay set of the record's municipality is populated
  before the dialog is shown. \<open>handleEdit\<close> opens the dialog and only starts the fetch:
  here the stored accommodation, whose municipality is set and loaded, has just been
  opened; the dialog is open, the barangay set is empty and the fetch is in flight.
\<close>

theorem editing_counterexample:
  "municipality inn = name daraga
   \<and> isOpen (component editing)
   \<and> barangays (component editing) = []
   \<and> inflight editing = [FetchBarangays (code daraga)]"
  by (simp add: js_def municipalities_url_def cities_url_def municipality_barangays_url_def
        city_barangays_url_def served_def not_found_def albay_fetch_def albay_def daraga_def
        legazpi_def daraga_barangays_def legazpi_barangays_def by_name_def failed_def
        sort_by_def loaded_def fetchBarangays_def start_def initial_def emptyForm_def run_def
        after_def no_calls_def fetchAccommodations_def fetchMunicipalities_def stored_def
        inn_def mounted_def Let_def handleEdit_def or_else_def editing_def)

text \<open>
  C6, amended. \<open>handleEdit\<close> opens the dialog at once and does not wait for the
  barangays: it fills every field of the form from the record (the two arrays joined with
  a comma and a space), sets the edited id, and leaves the rest of the state, the barangay
  set included, as it was. When the record's municipality is set and is the name of a
  loaded municipality, it starts a barangay fetch for the code of the first loaded
  municipality of that name; otherwise it starts none. A fetch that raises leaves the
  state as it was. Only a fetch that gets a body that decodes, from the municipality
  endpoint or after the fallback from the city endpoint, changes the barangay set: it
  becomes the records of that body sorted by name, that is, a rearrangement of them that
  is ordered by the collation of the runtime and keeps records of the same name in their
  order, when the collation is total and transitive.
\<close>

theorem handleEdit_loads:
  "fst (handleEdit a s) =
       s\<lparr>formData :=
           \<lparr>listing.name = listing.name a, description = description a,
            location = location a, municipality = municipality a,
            category = join (js '', '') (category a), image_url = image_url a,
            contact_number = contact_number a, email = email a,
            price_range = price_range a, amenities = join (js '', '') (amenities a),
            rating = listing.rating a\<rparr>,
         editingId := Some (acc_id a), isOpen := True\<rparr>
   \<and> isOpen (fst (handleEdit a s))
   \<and> barangays (fst (handleEdit a s)) = barangays s
   \<and> fst (snd (handleEdit a s)) = []
   \<and> (municipality a \<noteq> [] \<longrightarrow>
        (case find (\<lambda>m. name m = municipality a) (municipalities s) of
           Some m \<Rightarrow> m \<in> set (municipalities s) \<and> name m = municipality a
                      \<and> snd (snd (handleEdit a s)) = [FetchBarangays (code m)]
         | None \<Rightarrow> (\<forall>m\<in>set (municipalities s). name m \<noteq> municipality a)
                    \<and> snd (snd (handleEdit a s)) = []))
   \<and> (municipality a = [] \<longrightarrow> snd (snd (handleEdit a s)) = [])
   \<and> component (step (EditClicked a) cfg) = fst (handleEdit a (component cfg))
   \<and> inflight (step (EditClicked a) cfg) = inflight cfg @ snd (snd (handleEdit a (component cfg)))
   \<and> (fetchBarangays_throws w c
        \<or> (\<exists>r rows. fetch w (municipality_barangays_url c) = Resolved r \<and> ok r
              \<and> decode (json r) = Some rows)
        \<or> (\<exists>r r2 rows. fetch w (municipality_barangays_url c) = Resolved r \<and> \<not> ok r
              \<and> fetch w (city_barangays_url c) = Resolved r2 \<and> decode (json r2) = Some rows))
   \<and> (fetchBarangays_throws w c \<longrightarrow> fst (fetchBarangays w c s') = s')
   \<and> (fetch w (municipality_barangays_url c) = Resolved r \<and> ok r
        \<and> decode (json r) = Some rows \<longrightarrow>
        fst (fetchBarangays w c s') = s'\<lparr>barangays := sort_by (by_name w) rows\<rparr>)
   \<and> (fetch w (municipality_barangays_url c) = Resolved r \<and> \<not> ok r
        \<and> fetch w (city_barangays_url c) = Resolved r2 \<and> decode (json r2) = Some rows \<longrightarrow>
        fst (fetchBarangays w c s') = s'\<lparr>barangays := sort_by (by_name w) rows\<rparr>)
   \<and> (\<forall>b. count_list (sort_by (by_name w) rows) b = count_list rows b)
   \<and> ((\<forall>x y. localeCompare w x y \<le> 0 \<or> localeCompare w y x \<le> 0)
        \<and> (\<forall>x y z. localeCompare w x y \<le> 0 \<and> localeCompare w y z \<le> 0
               \<longrightarrow> localeCompare w x z \<le> 0) \<longrightarrow>
        sorted_wrt (\<lambda>a b. localeCompare w (name a) (name b) \<le> 0) (sort_by (by_name w) rows)
        \<and> (\<forall>k. filter (\<lambda>b. name b = k) (sort_by (by_name w) rows)
                 = filter (\<lambda>b. name b = k) rows))"
proof -
  have opened: "fst (handleEdit a s) =
       s\<lparr>formData :=
           \<lparr>listing.name = listing.name a, description = description a,
            location = location a, municipality = municipality a,
            category = join (js '', '') (category a), image_url = image_url a,
            contact_number = contact_number a, email = email a,
            price_range = price_range a, amenities = join (js '', '') (amenities a),
            rating = listing.rating a\<rparr>,
         editingId := Some (acc_id a), isOpen := True\<rparr>"
    by (rule handleEdit_state)
  have shown: "isOpen (fst (handleEdit a s))"
    and kept: "barangays (fst (handleEdit a s)) = barangays s"
    by (simp_all add: handleEdit_state)
  have quiet: "fst (snd (handleEdit a s)) = []"
    by (simp add: handleEdit_def Let_def)
  have found: "municipality a \<noteq> [] \<longrightarrow>
        (case find (\<lambda>m. name m = municipality a) (municipalities s) of
           Some m \<Rightarrow> m \<in> set (municipalities s) \<and> name m = municipality a
                      \<and> snd (snd (handleEdit a s)) = [FetchBarangays (code m)]
         | None \<Rightarrow> (\<forall>m\<in>set (municipalities s). name m \<noteq> municipality a)
                    \<and> snd (snd (handleEdit a s)) = [])"
    using find_code [where P = "\<lambda>m. name m = municipality a" and xs = "municipalities s"]
    by (auto simp: handleEdit_def Let_def split: option.splits)
  have unset: "municipality a = [] \<longrightarrow> snd (snd (handleEdit a s)) = []"
    by (simp add: handleEdit_def Let_def)
  have stepped: "component (step (EditClicked a) cfg) = fst (handleEdit a (component cfg))"
    "inflight (step (EditClicked a) cfg) = inflight cfg @ snd (snd (handleEdit a (component cfg)))"
    by (simp_all add: component_after inflight_after)
  have caught: "fetchBarangays_throws w c \<longrightarrow> fst (fetchBarangays w c s') = s'"
    by (simp add: fetchBarangays_caught)
  have direct: "fetch w (municipality_barangays_url c) = Resolved r \<and> ok r
        \<and> decode (json r) = Some rows \<longrightarrow>
        fst (fetchBarangays w c s') = s'\<lparr>barangays := sort_by (by_name w) rows\<rparr>"
    by (simp add: fetchBarangays_decoded)
  have fallback: "fetch w (municipality_barangays_url c) = Resolved r \<and> \<not> ok r
        \<and> fetch w (city_barangays_url c) = Resolved r2 \<and> decode (json r2) = Some rows \<longrightarrow>
        fst (fetchBarangays w c s') = s'\<lparr>barangays := sort_by (by_name w) rows\<rparr>"
    by (simp add: fetchBarangays_decoded_city)
  have same: "\<forall>b. count_list (sort_by (by_name w) rows) b = count_list rows b"
    by (simp add: count_list_sort_by)
  have ordered: "(\<forall>x y. localeCompare w x y \<le> 0 \<or> localeCompare w y x \<le> 0)
        \<and> (\<forall>x y z. localeCompare w x y \<le> 0 \<and> localeCompare w y z \<le> 0
               \<longrightarrow> localeCompare w x z \<le> 0) \<longrightarrow>
        sorted_wrt (\<lambda>a b. localeCompare w (name a) (name b) \<le> 0) (sort_by (by_name w) rows)
        \<and> (\<forall>k. filter (\<lambda>b. name b = k) (sort_by (by_name w) rows)
                 = filter (\<lambda>b. name b = k) rows)"
  proof (intro impI conjI allI)
    assume cmp: "(\<forall>x y. localeCompare w x y \<le> 0 \<or> localeCompare w y x \<le> 0)
        \<and> (\<forall>x y z. localeCompare w x y \<le> 0 \<and> localeCompare w y z \<le> 0
               \<longrightarrow> localeCompare w x z \<le> 0)"
    then have total: "by_name w x y \<le> 0 \<or> by_name w y x \<le> 0" for x y
      unfolding by_name_def by blast
    from cmp have trans: "by_name w x y \<le> 0 \<Longrightarrow> by_name w y z \<le> 0 \<Longrightarrow> by_name w x z \<le> 0"
      for x y z unfolding by_name_def by blast
    have "sorted_wrt (\<lambda>a b. by_name w a b \<le> 0) (sort_by (by_name w) rows)"
      using total trans by (rule sorted_sort_by)
    then show "sorted_wrt (\<lambda>a b. localeCompare w (name a) (name b) \<le> 0)
        (sort_by (by_name w) rows)"
      by (simp add: by_name_def)
    fix k
    have "by_name w x y \<le> 0" if "name x = k" and "name y = k" for x y
      using that total [of x x] by (simp add: by_name_def)
    then show "filter (\<lambda>b. name b = k) (sort_by (by_name w) rows)
        = filter (\<lambda>b. name b = k) rows"
      by (rule filter_sort_by)
  qed
  from opened shown kept quiet found unset stepped fetchBarangays_cases [of w c]
    caught direct fallback same ordered
  show ?thesis by (intro conjI)
qed

theorem handleEdit_loads_witness:
  "formData (fst (handleEdit inn (component mounted))) =
       \<lparr>listing.name = js ''Mayon View Inn'', description = js ''Rooms facing the volcano'',
        location = js ''Alcala'', municipality = js ''Daraga'', category = js ''Budget, Inn'',
        image_url = [], contact_number = [], email = [], price_range = [],
        amenities = js ''WiFi'', rating = 4\<rparr>
   \<and> municipality inn \<noteq> []
   \<and> find (\<lambda>m. name m = municipality inn) (municipalities (component mounted)) = Some daraga
   \<and> snd (snd (handleEdit inn (component mounted))) = [FetchBarangays (js ''050503000'')]
   \<and> fetch albay (municipality_barangays_url (code daraga))
       = Resolved \<lparr>ok = True, json = Records daraga_barangays\<rparr>
   \<and> daraga_barangays = [\<lparr>code = js ''050503002'', name = js ''Anislag''\<rparr>,
                          \<lparr>code = js ''050503001'', name = js ''Alcala''\<rparr>]
   \<and> barangays (fst (fetchBarangays albay (code daraga) (component editing)))
       = [\<lparr>code = js ''050503001'', name = js ''Alcala''\<rparr>,
          \<lparr>code = js ''050503002'', name = js ''Anislag''\<rparr>]
   \<and> sorted_wrt (\<lambda>a b. localeCompare albay (name a) (name b) \<le> 0)
        (sort_by (by_name albay) daraga_barangays)
   \<and> fetchBarangays_throws offline (code daraga)
   \<and> fst (fetchBarangays offline (code daraga) (component editing)) = component editing"
proof -
  note edit = handleEdit_loads [of inn "component mounted" mounted albay "code daraga"
      "component editing" "\<lparr>ok = True, json = Records daraga_barangays\<rparr>" daraga_barangays]
  have named: "municipality inn \<noteq> []"
    by (simp add: js_def inn_def)
  have listed: "find (\<lambda>m. name m = municipality inn) (municipalities (component mounted)) = Some daraga"
    by (simp add: js_def municipalities_url_def cities_url_def municipality_barangays_url_def
          city_barangays_url_def served_def not_found_def albay_fetch_def albay_def daraga_def
          legazpi_def daraga_barangays_def legazpi_barangays_def by_name_def failed_def
          sort_by_def loaded_def fetchBarangays_def start_def initial_def emptyForm_def run_def
          after_def no_calls_def fetchAccommodations_def fetchMunicipalities_def stored_def
          inn_def mounted_def Let_def)
  have copied: "listing.name inn = js ''Mayon View Inn''"
    "description inn = js ''Rooms facing the volcano''" "location inn = js ''Alcala''"
    "municipality inn = js ''Daraga''" "join (js '', '') (category inn) = js ''Budget, Inn''"
    "image_url inn = []" "contact_number inn = []" "email inn = []" "price_range inn = []"
    "join (js '', '') (amenities inn) = js ''WiFi''" "listing.rating inn = 4"
    by (simp_all add: inn_def js_def)
  have coded: "code daraga = js ''050503000''"
    by (simp add: daraga_def)
  have served: "fetch albay (municipality_barangays_url (code daraga))
      = Resolved \<lparr>ok = True, json = Records daraga_barangays\<rparr>"
    by (simp add: js_def municipalities_url_def cities_url_def municipality_barangays_url_def
          city_barangays_url_def served_def not_found_def albay_fetch_def albay_def daraga_def
          legazpi_def daraga_barangays_def legazpi_barangays_def)
  have rows: "daraga_barangays = [\<lparr>code = js ''050503002'', name = js ''Anislag''\<rparr>,
                          \<lparr>code = js ''050503001'', name = js ''Alcala''\<rparr>]"
    by (simp add: daraga_barangays_def)
  have arranged: "sort_by (by_name albay) daraga_barangays
      = [\<lparr>code = js ''050503001'', name = js ''Alcala''\<rparr>,
         \<lparr>code = js ''050503002'', name = js ''Anislag''\<rparr>]"
    by (simp add: js_def sort_by_def by_name_def albay_def daraga_barangays_def)
  have down: "fetchBarangays_throws offline (code daraga)"
    by (simp add: fetchBarangays_throws_def offline_def no_network_def)
  have units: "localeCompare albay = compare_units"
    by (simp add: albay_def)
  have collation: "(\<forall>x y. localeCompare albay x y \<le> 0 \<or> localeCompare albay y x \<le> 0)
      \<and> (\<forall>x y z. localeCompare albay x y \<le> 0 \<and> localeCompare albay y z \<le> 0
             \<longrightarrow> localeCompare albay x z \<le> 0)"
    unfolding units using compare_units_total compare_units_trans by blast
  have "formData (fst (handleEdit inn (component mounted))) =
       \<lparr>listing.name = listing.name inn, description = description inn,
        location = location inn, municipality = municipality inn,
        category = join (js '', '') (category inn), image_url = image_url inn,
        contact_number = contact_number inn, email = email inn,
        price_range = price_range inn, amenities = join (js '', '') (amenities inn),
        rating = listing.rating inn\<rparr>"
    by (subst edit [THEN conjunct1]) simp
  then have form: "formData (fst (handleEdit inn (component mounted))) =
       \<lparr>listing.name = js ''Mayon View Inn'', description = js ''Rooms facing the volcano'',
        location = js ''Alcala'', municipality = js ''Daraga'', category = js ''Budget, Inn'',
        image_url = [], contact_number = [], email = [], price_range = [],
        amenities = js ''WiFi'', rating = 4\<rparr>"
    by (simp only: copied)
  from edit [THEN conjunct2, THEN conjunct2, THEN conjunct2, THEN conjunct2, THEN conjunct1] named
  have "case find (\<lambda>m. name m = municipality inn) (municipalities (component mounted)) of
           Some m \<Rightarrow> m \<in> set (municipalities (component mounted)) \<and> name m = municipality inn
                      \<and> snd (snd (handleEdit inn (component mounted))) = [FetchBarangays (code m)]
         | None \<Rightarrow> (\<forall>m\<in>set (municipalities (component mounted)). name m \<noteq> municipality inn)
                    \<and> snd (snd (handleEdit inn (component mounted))) = []"
    by (rule mp)
  then have started: "snd (snd (handleEdit inn (component mounted))) = [FetchBarangays (js ''050503000'')]"
    by (simp add: listed coded)
  from served have "fetch albay (municipality_barangays_url (code daraga))
        = Resolved \<lparr>ok = True, json = Records daraga_barangays\<rparr>
      \<and> ok \<lparr>ok = True, json = Records daraga_barangays\<rparr>
      \<and> decode (json \<lparr>ok = True, json = Records daraga_barangays\<rparr>) = Some daraga_barangays"
    by simp
  with edit [THEN conjunct2, THEN conjunct2, THEN conjunct2, THEN conjunct2, THEN conjunct2, THEN conjunct2, THEN conjunct2, THEN conjunct2, THEN conjunct2, THEN conjunct2, THEN conjunct1]
  have "fst (fetchBarangays albay (code daraga) (component editing))
      = (component editing)\<lparr>barangays := sort_by (by_name albay) daraga_barangays\<rparr>"
    by (rule mp)
  then have arrived: "barangays (fst (fetchBarangays albay (code daraga) (component editing)))
       = [\<lparr>code = js ''050503001'', name = js ''Alcala''\<rparr>,
          \<lparr>code = js ''050503002'', name = js ''Anislag''\<rparr>]"
    by (simp add: arranged)
  from edit [THEN conjunct2, THEN conjunct2, THEN conjunct2, THEN conjunct2, THEN conjunct2, THEN conjunct2, THEN conjunct2, THEN conjunct2, THEN conjunct2, THEN conjunct2, THEN conjunct2, THEN conjunct2, THEN conjunct2] collation
  have "sorted_wrt (\<lambda>a b. localeCompare albay (name a) (name b) \<le> 0)
        (sort_by (by_name albay) daraga_barangays)
      \<and> (\<forall>k. filter (\<lambda>b. name b = k) (sort_by (by_name albay) daraga_barangays)
               = filter (\<lambda>b. name b = k) daraga_barangays)"
    by (rule mp)
  then have ordered: "sorted_wrt (\<lambda>a b. localeCompare albay (name a) (name b) \<le> 0)
        (sort_by (by_name albay) daraga_barangays)"
    by (rule conjunct1)
  have unchanged: "fst (fetchBarangays offline (code daraga) (component editing)) = component editing"
    using down by (rule fetchBarangays_caught)
  from form named listed started served rows arrived ordered down unchanged
  show ?thesis by (intro conjI)
qed

section \<open>Submitting a review\<close>

text \<open>
  C7. When the rating of the draft is 0, \<open>handleSubmit\<close> of the review form leaves the
  draft as it is (rating, comment and submitting flag included), its only effect is the
  notification \<open>Please select a rating\<close>, it sends nothing to the store and leaves no
  call in flight.
\<close>

theorem ReviewForm_rejects_unrated:
  "draft.rating d = 0 \<longrightarrow>
     fst (ReviewForm_handleSubmit p d) = d
     \<and> fst (snd (ReviewForm_handleSubmit p d)) = [Toast ''Error'' ''Please select a rating'' True]
     \<and> filter is_remote (fst (snd (ReviewForm_handleSubmit p d))) = []
     \<and> \<not> snd (snd (ReviewForm_handleSubmit p d))"
  by (simp add: ReviewForm_handleSubmit_def)

theorem ReviewForm_rejects_unrated_witness:
  "draft.rating unrated = 0
   \<and> fst (ReviewForm_handleSubmit visitor unrated) = unrated
   \<and> fst (snd (ReviewForm_handleSubmit visitor unrated))
       = [Toast ''Error'' ''Please select a rating'' True]
   \<and> filter is_remote (fst (snd (ReviewForm_handleSubmit visitor unrated))) = []"
proof -
  have unset: "draft.rating unrated = 0"
    by (simp add: unrated_def)
  with ReviewForm_rejects_unrated [of unrated visitor] show ?thesis
    by blast
qed

text \<open>
  C8. When the rating of the draft is not 0, \<open>handleSubmit\<close> of the review form sends one
  insert with the spot, the user, the rating and the trimmed comment, \<open>null\<close> when the
  trimmed comment is empty, and does not touch the rating or the comment. When the insert
  succeeds the rating becomes 0, the comment becomes empty and \<open>onReviewSubmitted\<close> is
  called. When it fails, the error is notified, the rating and the comment stay as they
  are and \<open>onReviewSubmitted\<close> is not called.
\<close>

theorem ReviewForm_submits:
  "draft.rating d \<noteq> 0 \<longrightarrow>
     fst (snd (ReviewForm_handleSubmit p d)) =
       [InsertReview (spotId p) (userId p) (draft.rating d)
          (if trim (draft.comment d) = [] then None else Some (trim (draft.comment d)))]
     \<and> snd (snd (ReviewForm_handleSubmit p d))
     \<and> draft.rating (fst (ReviewForm_handleSubmit p d)) = draft.rating d
     \<and> draft.comment (fst (ReviewForm_handleSubmit p d)) = draft.comment d
     \<and> draft.rating (fst (ReviewForm_handleSubmit_inserted False d')) = 0
     \<and> draft.comment (fst (ReviewForm_handleSubmit_inserted False d')) = []
     \<and> OnReviewSubmitted \<in> set (snd (ReviewForm_handleSubmit_inserted False d'))
     \<and> draft.rating (fst (ReviewForm_handleSubmit_inserted True d')) = draft.rating d'
     \<and> draft.comment (fst (ReviewForm_handleSubmit_inserted True d')) = draft.comment d'
     \<and> snd (ReviewForm_handleSubmit_inserted True d')
         = [Toast ''Error'' ''Failed to submit review'' True]
     \<and> OnReviewSubmitted \<notin> set (snd (ReviewForm_handleSubmit_inserted True d'))"
  by (simp add: ReviewForm_handleSubmit_def ReviewForm_handleSubmit_inserted_def)

theorem ReviewForm_submits_witness:
  "draft.rating four_stars \<noteq> 0
   \<and> fst (snd (ReviewForm_handleSubmit visitor four_stars))
       = [InsertReview (js ''spot-7'') (js ''user-3'') 4 (Some (js ''Nice view''))]
   \<and> draft.rating stars_only \<noteq> 0
   \<and> fst (snd (ReviewForm_handleSubmit visitor stars_only))
       = [InsertReview (js ''spot-7'') (js ''user-3'') 5 None]
   \<and> draft.comment (fst (ReviewForm_handleSubmit_inserted True
         (fst (ReviewForm_handleSubmit visitor four_stars)))) = draft.comment four_stars
   \<and> draft.rating (fst (ReviewForm_handleSubmit_inserted False
         (fst (ReviewForm_handleSubmit visitor four_stars)))) = 0"
proof -
  have rated: "draft.rating four_stars \<noteq> 0" "draft.rating stars_only \<noteq> 0"
    by (simp_all add: four_stars_def stars_only_def)
  have trimmed: "trim (draft.comment four_stars) = js ''Nice view''"
    "trim (draft.comment stars_only) = []"
    "spotId visitor = js ''spot-7''" "userId visitor = js ''user-3''"
    "draft.rating four_stars = 4" "draft.rating stars_only = 5"
    "js ''Nice view'' \<noteq> []"
    by (simp_all add: js_def trim_def isWhiteSpace_def four_stars_def stars_only_def
          visitor_def)
  from ReviewForm_submits [of four_stars visitor "fst (ReviewForm_handleSubmit visitor four_stars)"]
    ReviewForm_submits [of stars_only visitor stars_only] rated trimmed
  show ?thesis by simp
qed

text \<open>
  C10. \<open>handleSubmit\<close> of the review form does not depend on \<open>hasUserReviewed\<close>: two
  calls that differ only in that flag return the same draft, the same effects and the same
  call in flight, and the continuation after the insert does not take the props at all.
  The flag only disables the submit button; with the flag set and a rating chosen the
  handler, once called, still sends the insert.
\<close>

theorem hasUserReviewed_only_disables:
  "ReviewForm_handleSubmit (p\<lparr>hasUserReviewed := b\<rparr>) d
       = ReviewForm_handleSubmit (p\<lparr>hasUserReviewed := b'\<rparr>) d
   \<and> (submit_disabled p d \<longleftrightarrow> isSubmitting d \<or> draft.rating d = 0 \<or> hasUserReviewed p)
   \<and> (hasUserReviewed p \<longrightarrow> submit_disabled p d)
   \<and> (hasUserReviewed p \<and> draft.rating d \<noteq> 0 \<longrightarrow>
        fst (snd (ReviewForm_handleSubmit p d)) =
          [InsertReview (spotId p) (userId p) (draft.rating d)
             (if trim (draft.comment d) = [] then None else Some (trim (draft.comment d)))])"
  by (simp add: ReviewForm_handleSubmit_def submit_disabled_def)

theorem hasUserReviewed_only_disables_witness:
  "hasUserReviewed (visitor\<lparr>hasUserReviewed := True\<rparr>)
   \<and> draft.rating four_stars \<noteq> 0
   \<and> submit_disabled (visitor\<lparr>hasUserReviewed := True\<rparr>) four_stars
   \<and> ReviewForm_handleSubmit (visitor\<lparr>hasUserReviewed := True\<rparr>) four_stars
       = ReviewForm_handleSubmit (visitor\<lparr>hasUserReviewed := False\<rparr>) four_stars
   \<and> filter is_remote (fst (snd (ReviewForm_handleSubmit (visitor\<lparr>hasUserReviewed := True\<rparr>) four_stars)))
       \<noteq> []"
proof -
  let ?p = "visitor\<lparr>hasUserReviewed := True\<rparr>"
  have flag: "hasUserReviewed ?p"
    by simp
  have rated: "draft.rating four_stars \<noteq> 0"
    by (simp add: four_stars_def)
  note independent = hasUserReviewed_only_disables
    [where p = ?p and b = True and b' = False and d = four_stars]
  from independent have same: "ReviewForm_handleSubmit ?p four_stars
      = ReviewForm_handleSubmit (visitor\<lparr>hasUserReviewed := False\<rparr>) four_stars"
    by simp
  from independent flag have disabled: "submit_disabled ?p four_stars"
    by blast
  from independent flag rated
  have "fst (snd (ReviewForm_handleSubmit ?p four_stars)) =
          [InsertReview (spotId ?p) (userId ?p) (draft.rating four_stars)
             (if trim (draft.comment four_stars) = [] then None
              else Some (trim (draft.comment four_stars)))]"
    by blast
  then have sent: "filter is_remote (fst (snd (ReviewForm_handleSubmit ?p four_stars))) \<noteq> []"
    by simp
  from flag rated disabled same sent show ?thesis
    by (intro conjI)
qed

section \<open>The displayed average\<close>

text \<open>
  C9, as stated, asks that the displayed average equals the arithmetic mean rendered to
  one decimal place. The average is a binary64 quotient, and the mean can lie halfway
  between two tenths with the quotient just below it. For seven reviews of five stars and
  thirteen of four the mean is 4.35, which renders as 4.4 (by \<open>toFixed\<close> of the exact
  mean, and by rounding the half up or to even alike), while the component displays 4.3.
\<close>

theorem divided_counterexample:
  "\<not> isLoading divided \<and> length (reviews divided) = 20
   \<and> arithmetic_mean (reviews divided) = 87 / 20
   \<and> toFixed 1 (arithmetic_mean (reviews divided)) = Some ''4.4''
   \<and> averageRating (reviews divided) = fl (87 / 20)
   \<and> fl (87 / 20) = 2448832297382707 / 2 ^ 49
   \<and> toFixed 1 (averageRating (reviews divided)) = Some ''4.3''"
proof -
  have given: "\<not> isLoading divided" "length (reviews divided) = 20" "reviews divided \<noteq> []"
    "length (reviews divided) < 2 ^ 32"
    "20 * sum_list (map Review.rating (reviews divided)) < 2 ^ 53"
    by (simp_all add: divided_def listed_simps sum_list_replicate)
  have mean: "arithmetic_mean (reviews divided) = 87 / 20"
    by (simp add: divided_def mean_listed sum_list_replicate)
  have quotient: "averageRating (reviews divided) = fl (87 / 20)"
    using average_facts(1) [OF given(3-5)] by (simp only: mean)
  have below: "fl (87 / 20) = 2448832297382707 / 2 ^ 49"
    by code_simp
  have exact: "toFixed 1 (87 / 20) = Some ''4.4''"
    by code_simp
  have shown: "toFixed 1 (fl (87 / 20)) = Some ''4.3''"
    by code_simp
  from given(1,2) mean exact quotient below shown show ?thesis
    by (simp only: simp_thms)
qed

text \<open>
  C9, amended. For a list that is not loading and holds at least one review, the displayed
  average is \<open>toFixed(1)\<close> of the binary64 value nearest to the arithmetic mean of the
  ratings (the quotient of the exact sum by the count, within one part in \<open>2 ^ 53\<close> of
  the mean). It is a tenth within one twentieth of the mean. It equals the mean rendered
  to one decimal place whenever the mean is not halfway between two tenths, and also at a
  halfway mean that the binary64 value is not below; at a halfway mean that the binary64
  value is below, it is the tenth below that rendering. The count label is the number of
  reviews followed by \<open>review\<close> when there is exactly one review and by \<open>reviews\<close>
  otherwise. The list has fewer than \<open>2 ^ 32\<close> reviews, as every JavaScript array has,
  and twenty times the sum of the ratings is below \<open>2 ^ 53\<close>, which ratings of at most
  five stars are far from reaching.
\<close>

theorem ReviewList_average:
  "\<not> isLoading p \<and> reviews p \<noteq> [] \<and> length (reviews p) < 2 ^ 32
     \<and> 20 * sum_list (map Review.rating (reviews p)) < 2 ^ 53 \<longrightarrow>
   ReviewList p =
       Reviews (toFixed 1 (fl (arithmetic_mean (reviews p))))
         (''('' @ digits (length (reviews p)) @ '' ''
            @ (if length (reviews p) = 1 then ''review'' else ''reviews'') @ '')'')
         (map (\<lambda>r. (r, currentUserId p = Some (user_id r))) (reviews p))
   \<and> averageRating (reviews p) = fl (arithmetic_mean (reviews p))
   \<and> \<bar>fl (arithmetic_mean (reviews p)) - arithmetic_mean (reviews p)\<bar>
        \<le> arithmetic_mean (reviews p) / 2 ^ 53
   \<and> (\<exists>n. toFixed 1 (fl (arithmetic_mean (reviews p)))
              = Some (digits (n div 10) @ ''.'' @ digits (n mod 10))
        \<and> \<bar>of_nat n / 10 - arithmetic_mean (reviews p)\<bar> \<le> 1 / 20
        \<and> (\<not> halfway (arithmetic_mean (reviews p)) \<longrightarrow>
             n = nat \<lfloor>arithmetic_mean (reviews p) * 10 + 1 / 2\<rfloor>)
        \<and> (halfway (arithmetic_mean (reviews p))
             \<and> arithmetic_mean (reviews p) \<le> fl (arithmetic_mean (reviews p)) \<longrightarrow>
             n = nat \<lfloor>arithmetic_mean (reviews p) * 10 + 1 / 2\<rfloor>)
        \<and> (halfway (arithmetic_mean (reviews p))
             \<and> fl (arithmetic_mean (reviews p)) < arithmetic_mean (reviews p) \<longrightarrow>
             Suc n = nat \<lfloor>arithmetic_mean (reviews p) * 10 + 1 / 2\<rfloor>))
   \<and> toFixed 1 (arithmetic_mean (reviews p))
       = Some (digits (nat \<lfloor>arithmetic_mean (reviews p) * 10 + 1 / 2\<rfloor> div 10) @ ''.''
           @ digits (nat \<lfloor>arithmetic_mean (reviews p) * 10 + 1 / 2\<rfloor> mod 10))
   \<and> (\<not> halfway (arithmetic_mean (reviews p))
        \<or> arithmetic_mean (reviews p) \<le> fl (arithmetic_mean (reviews p)) \<longrightarrow>
        toFixed 1 (fl (arithmetic_mean (reviews p))) = toFixed 1 (arithmetic_mean (reviews p)))"
proof
  let ?m = "arithmetic_mean (reviews p)"
  let ?n = "nat \<lfloor>fl ?m * 10 + 1 / 2\<rfloor>"
  let ?k = "nat \<lfloor>?m * 10 + 1 / 2\<rfloor>"
  assume "\<not> isLoading p \<and> reviews p \<noteq> [] \<and> length (reviews p) < 2 ^ 32
     \<and> 20 * sum_list (map Review.rating (reviews p)) < 2 ^ 53"
  then have loaded: "\<not> isLoading p" and ne: "reviews p \<noteq> []"
    and len: "length (reviews p) < 2 ^ 32"
    and small: "20 * sum_list (map Review.rating (reviews p)) < 2 ^ 53"
    by simp_all
  note facts = average_facts [OF ne len small]
  have quotient: "averageRating (reviews p) = fl ?m"
    by (rule facts(1))
  have close: "\<bar>fl ?m - ?m\<bar> \<le> ?m / 2 ^ 53"
    by (rule facts(2))
  have near: "\<bar>of_nat ?n / 10 - ?m\<bar> \<le> (1 / 20 :: rat)"
    by (rule facts(7))
  have view: "ReviewList p =
       Reviews (toFixed 1 (fl ?m))
         (''('' @ digits (length (reviews p)) @ '' ''
            @ (if length (reviews p) = 1 then ''review'' else ''reviews'') @ '')'')
         (map (\<lambda>r. (r, currentUserId p = Some (user_id r))) (reviews p))"
    using loaded ne by (simp add: ReviewList_def countLabel_def quotient)
  have shown: "toFixed 1 (fl ?m) = Some (digits (?n div 10) @ ''.'' @ digits (?n mod 10))"
    using facts(5) facts(6) by (rule toFixed_1)
  have exact: "toFixed 1 ?m = Some (digits (?k div 10) @ ''.'' @ digits (?k mod 10))"
    using facts(3) facts(4) by (rule toFixed_1)
  note chosen = tenth_chosen [OF facts(5) facts(3) near]
  have plain: "\<not> halfway ?m \<longrightarrow> ?n = ?k"
    using chosen(1) by blast
  have up: "halfway ?m \<and> ?m \<le> fl ?m \<longrightarrow> ?n = ?k"
    using chosen(2) by blast
  have down: "halfway ?m \<and> fl ?m < ?m \<longrightarrow> Suc ?n = ?k"
    using chosen(3) by blast
  have tenth: "\<exists>n. toFixed 1 (fl ?m) = Some (digits (n div 10) @ ''.'' @ digits (n mod 10))
        \<and> \<bar>of_nat n / 10 - ?m\<bar> \<le> 1 / 20
        \<and> (\<not> halfway ?m \<longrightarrow> n = ?k)
        \<and> (halfway ?m \<and> ?m \<le> fl ?m \<longrightarrow> n = ?k)
        \<and> (halfway ?m \<and> fl ?m < ?m \<longrightarrow> Suc n = ?k)"
    using shown near plain up down by blast
  have rendered: "\<not> halfway ?m \<or> ?m \<le> fl ?m \<longrightarrow> toFixed 1 (fl ?m) = toFixed 1 ?m"
  proof
    assume "\<not> halfway ?m \<or> ?m \<le> fl ?m"
    with plain up have "?n = ?k" by blast
    with shown exact show "toFixed 1 (fl ?m) = toFixed 1 ?m" by simp
  qed
  from view quotient close tenth exact rendered
  show "ReviewList p =
       Reviews (toFixed 1 (fl ?m))
         (''('' @ digits (length (reviews p)) @ '' ''
            @ (if length (reviews p) = 1 then ''review'' else ''reviews'') @ '')'')
         (map (\<lambda>r. (r, currentUserId p = Some (user_id r))) (reviews p))
   \<and> averageRating (reviews p) = fl ?m
   \<and> \<bar>fl ?m - ?m\<bar> \<le> ?m / 2 ^ 53
   \<and> (\<exists>n. toFixed 1 (fl ?m) = Some (digits (n div 10) @ ''.'' @ digits (n mod 10))
        \<and> \<bar>of_nat n / 10 - ?m\<bar> \<le> 1 / 20
        \<and> (\<not> halfway ?m \<longrightarrow> n = ?k)
        \<and> (halfway ?m \<and> ?m \<le> fl ?m \<longrightarrow> n = ?k)
        \<and> (halfway ?m \<and> fl ?m < ?m \<longrightarrow> Suc n = ?k))
   \<and> toFixed 1 ?m = Some (digits (?k div 10) @ ''.'' @ digits (?k mod 10))
   \<and> (\<not> halfway ?m \<or> ?m \<le> fl ?m \<longrightarrow> toFixed 1 (fl ?m) = toFixed 1 ?m)"
    by (intro conjI)
qed

theorem ReviewList_average_witness:
  "\<not> isLoading (listed [5, 4, 3]) \<and> reviews (listed [5, 4, 3]) \<noteq> []
   \<and> length (reviews (listed [5, 4, 3])) < 2 ^ 32
   \<and> 20 * sum_list (map Review.rating (reviews (listed [5, 4, 3]))) < 2 ^ 53
   \<and> arithmetic_mean (reviews (listed [5, 4, 3])) = 4
   \<and> \<not> halfway (arithmetic_mean (reviews (listed [5, 4, 3])))
   \<and> toFixed 1 (arithmetic_mean (reviews (listed [5, 4, 3]))) = Some ''4.0''
   \<and> ReviewList (listed [5, 4, 3])
       = Reviews (Some ''4.0'') ''(3 reviews)''
           [(review 5, False), (review 4, False), (review 3, False)]
   \<and> arithmetic_mean (reviews (listed [5, 4, 4, 4])) = 17 / 4
   \<and> halfway (arithmetic_mean (reviews (listed [5, 4, 4, 4])))
   \<and> arithmetic_mean (reviews (listed [5, 4, 4, 4]))
        \<le> fl (arithmetic_mean (reviews (listed [5, 4, 4, 4])))
   \<and> toFixed 1 (fl (arithmetic_mean (reviews (listed [5, 4, 4, 4])))) = Some ''4.3''
   \<and> arithmetic_mean (reviews divided) = 87 / 20
   \<and> halfway (arithmetic_mean (reviews divided))
   \<and> fl (arithmetic_mean (reviews divided)) < arithmetic_mean (reviews divided)
   \<and> (\<exists>n. toFixed 1 (fl (arithmetic_mean (reviews divided)))
              = Some (digits (n div 10) @ ''.'' @ digits (n mod 10))
        \<and> Suc n = 44)
   \<and> fl (1 / 3) = 6004799503160661 / 2 ^ 54
   \<and> fl (2 ^ 53 + 1) = 2 ^ 53 \<and> fl (2 ^ 53 + 3) = 2 ^ 53 + 4
   \<and> toFixed 1 (17 / 4) = Some ''4.3'' \<and> toFixed 1 (1 / 25) = Some ''0.0''
   \<and> countLabel (reviews (listed [3])) = ''(1 review)''
   \<and> countLabel (reviews (listed [3, 4])) = ''(2 reviews)''"
proof -
  have given: "\<not> isLoading (listed [5, 4, 3])" "reviews (listed [5, 4, 3]) \<noteq> []"
    "length (reviews (listed [5, 4, 3])) < 2 ^ 32"
    "20 * sum_list (map Review.rating (reviews (listed [5, 4, 3]))) < 2 ^ 53"
    by (simp_all add: listed_simps)
  have four: "\<not> isLoading (listed [5, 4, 4, 4])" "reviews (listed [5, 4, 4, 4]) \<noteq> []"
    "length (reviews (listed [5, 4, 4, 4])) < 2 ^ 32"
    "20 * sum_list (map Review.rating (reviews (listed [5, 4, 4, 4]))) < 2 ^ 53"
    by (simp_all add: listed_simps)
  have twenty: "\<not> isLoading divided" "reviews divided \<noteq> []"
    "length (reviews divided) < 2 ^ 32"
    "20 * sum_list (map Review.rating (reviews divided)) < 2 ^ 53"
    by (simp_all add: divided_def listed_simps sum_list_replicate)
  have means: "arithmetic_mean (reviews (listed [5, 4, 3])) = 4"
    "arithmetic_mean (reviews (listed [5, 4, 4, 4])) = 17 / 4"
    "arithmetic_mean (reviews divided) = 87 / 20"
    by (simp_all add: divided_def mean_listed sum_list_replicate)
  have numbers: "\<not> halfway 4" "toFixed 1 4 = Some ''4.0''"
    "halfway (17 / 4)" "17 / 4 \<le> fl (17 / 4)" "toFixed 1 (17 / 4) = Some ''4.3''"
    "halfway (87 / 20)" "fl (87 / 20) < 87 / 20"
    "nat \<lfloor>87 / 20 * 10 + 1 / 2 :: rat\<rfloor> = 44"
    by code_simp+
  have rounding: "fl (1 / 3) = 6004799503160661 / 2 ^ 54"
    "fl (2 ^ 53 + 1) = 2 ^ 53" "fl (2 ^ 53 + 3) = 2 ^ 53 + 4"
    "toFixed 1 (1 / 25) = Some ''0.0''"
    by code_simp+
  have three: "digits 3 = ''3''"
    by code_simp
  have labels: "countLabel (reviews (listed [3])) = ''(1 review)''"
    "countLabel (reviews (listed [3, 4])) = ''(2 reviews)''"
    by code_simp+
  have cards: "map (\<lambda>r. (r, currentUserId (listed [5, 4, 3]) = Some (user_id r)))
       (reviews (listed [5, 4, 3])) = [(review 5, False), (review 4, False), (review 3, False)]"
    by (simp add: listed_def)
  note plain = ReviewList_average [of "listed [5, 4, 3]", unfolded means]
  from plain given numbers(1)
  have "toFixed 1 (fl 4) = toFixed 1 4"
    by blast
  then have shown: "toFixed 1 (fl 4) = Some ''4.0''"
    by (simp only: numbers)
  from plain given
  have "ReviewList (listed [5, 4, 3]) =
       Reviews (toFixed 1 (fl 4))
         (''('' @ digits (length (reviews (listed [5, 4, 3]))) @ '' ''
            @ (if length (reviews (listed [5, 4, 3])) = 1 then ''review'' else ''reviews'') @ '')'')
         (map (\<lambda>r. (r, currentUserId (listed [5, 4, 3]) = Some (user_id r)))
            (reviews (listed [5, 4, 3])))"
    by blast
  moreover have "length (reviews (listed [5, 4, 3])) = 3"
    by (simp add: listed_simps)
  then have "''('' @ digits (length (reviews (listed [5, 4, 3]))) @ '' ''
      @ (if length (reviews (listed [5, 4, 3])) = 1 then ''review'' else ''reviews'') @ '')''
      = ''(3 reviews)''"
    by (simp add: three)
  ultimately have view: "ReviewList (listed [5, 4, 3])
       = Reviews (Some ''4.0'') ''(3 reviews)''
           [(review 5, False), (review 4, False), (review 3, False)]"
    by (simp only: shown cards)
  from ReviewList_average [of "listed [5, 4, 4, 4]", unfolded means] four numbers(3,4)
  have "toFixed 1 (fl (17 / 4)) = toFixed 1 (17 / 4)"
    by blast
  then have upper: "toFixed 1 (fl (17 / 4)) = Some ''4.3''"
    by (simp only: numbers)
  from ReviewList_average [of divided, unfolded means] twenty numbers(6,7)
  have "\<exists>n. toFixed 1 (fl (87 / 20)) = Some (digits (n div 10) @ ''.'' @ digits (n mod 10))
        \<and> Suc n = nat \<lfloor>87 / 20 * 10 + 1 / 2 :: rat\<rfloor>"
    by blast
  then have lower: "\<exists>n. toFixed 1 (fl (87 / 20)) = Some (digits (n div 10) @ ''.'' @ digits (n mod 10))
        \<and> Suc n = 44"
    by (simp only: numbers)
  from given means numbers(1-4,6,7) shown view upper lower rounding numbers(5) labels
  show ?thesis
    by (simp only: simp_thms)
qed

end
